theory Spec2Isabelle
  imports Main "HOL-Library.Word"
begin

section \<open>Integers, strings and errors of the Go code\<close>

text \<open>
  Go's \<^verbatim>\<open>int64\<close> is a 64-bit word read as two's complement: \<open>sint\<close> reads the
  value, and \<open>+\<close>, \<open>-\<close>, \<open>*\<close> wrap around as Go's do. Comparisons of the source
  (\<^verbatim>\<open>0 < required\<close>, \<^verbatim>\<open>addSize >= available\<close>) are comparisons of the signed values.
  The fields of \<^verbatim>\<open>syscall.Statfs_t\<close> that are \<^verbatim>\<open>uint64\<close> are 64-bit words too; the
  conversion \<^verbatim>\<open>int64(x)\<close> keeps the bits.
\<close>

type_synonym int64 = "64 word"

text \<open>Decimal printing, as \<^verbatim>\<open>strconv.FormatInt(i, 10)\<close> and the verb \<^verbatim>\<open>%d\<close> do.\<close>

definition digit :: "nat \<Rightarrow> char" where
  "digit d = ''0123456789'' ! d"

fun FormatUint :: "nat \<Rightarrow> string" where
  "FormatUint n = (if n < 10 then [digit n] else FormatUint (n div 10) @ [digit (n mod 10)])"

declare FormatUint.simps [simp del]

definition FormatInt :: "int \<Rightarrow> string" where
  "FormatInt i = (if i < 0 then ''-'' @ FormatUint (nat (- i)) else FormatUint (nat i))"

text \<open>\<^verbatim>\<open>strings.TrimSuffix\<close>: one occurrence of the suffix is removed when the string ends with it.\<close>

definition TrimSuffix :: "string \<Rightarrow> string \<Rightarrow> string" where
  "TrimSuffix s suffix =
     (if length suffix \<le> length s \<and> drop (length s - length suffix) s = suffix
      then take (length s - length suffix) s else s)"

text \<open>
  \<^verbatim>\<open>strings.TrimSpace\<close> removes the leading and the trailing white-space runes of a string,
  white space being what \<^verbatim>\<open>unicode.IsSpace\<close> accepts. A \<open>string\<close> here is the byte
  sequence of the Go string, so the runes are listed by their UTF-8 encodings:
  U+0009 to U+000D, U+0020, U+0085, U+00A0, U+1680, U+2000 to U+200A, U+2028, U+2029,
  U+202F, U+205F and U+3000.
\<close>

definition spaceRunes :: "string list" where
  "spaceRunes =
     [[CHR 0x09], [CHR 0x0A], [CHR 0x0B], [CHR 0x0C], [CHR 0x0D], [CHR 0x20],
      [CHR 0xC2, CHR 0x85], [CHR 0xC2, CHR 0xA0], [CHR 0xE1, CHR 0x9A, CHR 0x80],
      [CHR 0xE2, CHR 0x80, CHR 0x80], [CHR 0xE2, CHR 0x80, CHR 0x81],
      [CHR 0xE2, CHR 0x80, CHR 0x82], [CHR 0xE2, CHR 0x80, CHR 0x83],
      [CHR 0xE2, CHR 0x80, CHR 0x84], [CHR 0xE2, CHR 0x80, CHR 0x85],
      [CHR 0xE2, CHR 0x80, CHR 0x86], [CHR 0xE2, CHR 0x80, CHR 0x87],
      [CHR 0xE2, CHR 0x80, CHR 0x88], [CHR 0xE2, CHR 0x80, CHR 0x89],
      [CHR 0xE2, CHR 0x80, CHR 0x8A], [CHR 0xE2, CHR 0x80, CHR 0xA8],
      [CHR 0xE2, CHR 0x80, CHR 0xA9], [CHR 0xE2, CHR 0x80, CHR 0xAF],
      [CHR 0xE2, CHR 0x81, CHR 0x9F], [CHR 0xE3, CHR 0x80, CHR 0x80]]"

text \<open>The number of bytes of the white-space rune that \<open>s\<close> starts with in one of the
  given encodings, 0 when it starts with none.\<close>

definition leadLen :: "string list \<Rightarrow> string \<Rightarrow> nat" where
  "leadLen encs s =
     (case find (\<lambda>p. p \<noteq> [] \<and> take (length p) s = p) encs of
        None \<Rightarrow> 0
      | Some p \<Rightarrow> length p)"

lemma leadLen_le: "leadLen encs s \<le> length s"
proof (cases "find (\<lambda>p. p \<noteq> [] \<and> take (length p) s = p) encs")
  case None
  then show ?thesis by (simp add: leadLen_def)
next
  case (Some p)
  then have "take (length p) s = p"
    by (auto simp: find_Some_iff)
  then have "length p = min (length p) (length s)"
    by (metis length_take min.commute)
  with Some show ?thesis by (simp add: leadLen_def)
qed

function trimLead :: "string list \<Rightarrow> string \<Rightarrow> string" where
  "trimLead encs s = (if leadLen encs s = 0 then s else trimLead encs (drop (leadLen encs s) s))"
  by pat_completeness auto
termination
proof (relation "measure (\<lambda>(encs, s). length s)")
  show "wf (measure (\<lambda>(encs, s). length s))" by simp
next
  fix encs :: "string list" and s :: string
  assume "leadLen encs s \<noteq> 0"
  moreover have "leadLen encs s \<le> length s" by (rule leadLen_le)
  ultimately show "((encs, drop (leadLen encs s) s), (encs, s)) \<in> measure (\<lambda>(encs, s). length s)"
    by simp
qed

declare trimLead.simps [simp del]

definition TrimSpace :: "string \<Rightarrow> string" where
  "TrimSpace s = rev (trimLead (map rev spaceRunes) (rev (trimLead spaceRunes s)))"

text \<open>\<^verbatim>\<open>strings.Split(s, ":")\<close> for a separator of one byte: the pieces between the
  separators, never an empty list.\<close>

fun Split :: "string \<Rightarrow> char \<Rightarrow> string list" where
  "Split [] sep = [[]]"
| "Split (c # cs) sep =
     (if c = sep then [] # Split cs sep
      else (c # hd (Split cs sep)) # tl (Split cs sep))"

text \<open>
  \<^verbatim>\<open>strconv.ParseInt(s, 10, 64)\<close>: an optional sign, then one or more decimal digits;
  anything else is a syntax error, and a value that does not fit \<^verbatim>\<open>int64\<close> is a range
  error. The message of the error quotes the string (\<^verbatim>\<open>strconv.Quote\<close>, which puts a
  string of printable ASCII without quotes and backslashes between double quotes).
\<close>

definition isDigit :: "char \<Rightarrow> bool" where
  "isDigit c = (48 \<le> (of_char c :: nat) \<and> (of_char c :: nat) \<le> 57)"

definition digitValue :: "char \<Rightarrow> nat" where
  "digitValue c = of_char c - 48"

definition Quote :: "string \<Rightarrow> string" where
  "Quote s = ''\"'' @ s @ ''\"''"

definition ParseUint :: "string \<Rightarrow> nat option" where
  "ParseUint s =
     (if s = '''' \<or> \<not> list_all isDigit s then None
      else Some (foldl (\<lambda>n c. n * 10 + digitValue c) 0 s))"

definition ParseInt :: "string \<Rightarrow> string + int64" where
  "ParseInt s0 =
     (let syntaxError = Inl (''strconv.ParseInt: parsing '' @ Quote s0 @ '': invalid syntax'');
          rangeError = Inl (''strconv.ParseInt: parsing '' @ Quote s0 @ '': value out of range'')
      in
      if s0 = '''' then syntaxError
      else
        (let neg = (hd s0 = CHR ''-'');
             s = (if hd s0 = CHR ''+'' \<or> hd s0 = CHR ''-'' then tl s0 else s0)
         in
         case ParseUint s of
           None \<Rightarrow> syntaxError
         | Some un \<Rightarrow>
             if \<not> neg \<and> 2 ^ 63 \<le> un then rangeError
             else if neg \<and> 2 ^ 63 < un then rangeError
             else Inr (if neg then - of_nat un else of_nat un)))"

text \<open>
  Errors. The two sentinel values of package \<^verbatim>\<open>volumes\<close> are compared by identity
  (\<^verbatim>\<open>err == volumes.ErrorVolumeNotFound\<close>); every other error of the code is built by
  \<^verbatim>\<open>fmt.Errorf\<close> or \<^verbatim>\<open>errors.New\<close> and is a new value that carries its formatted
  message. Wrapping with \<^verbatim>\<open>%w\<close> yields such a new value, whose message contains the
  wrapped error's message; no code of the repository unwraps an error.
\<close>

datatype error = ErrorVolumeNotFound | ErrorVolumeAlreadyExists | Errorf string

fun Error :: "error \<Rightarrow> string" where
  "Error ErrorVolumeNotFound = ''volume not found''"
| "Error ErrorVolumeAlreadyExists = ''volume already exists''"
| "Error (Errorf msg) = msg"

text \<open>A Go call either returns or panics (a nil dereference).\<close>

datatype 'a go = Panic | Return 'a

section \<open>The host: file system, executables, system calls\<close>

text \<open>
  The driver keeps no state of its own; what it reads and changes is the host. The part of
  the host that the operations below change is the file system: a map from paths to
  nodes, a regular file having a logical length and the bytes written to it so far (a
  sparse file's holes are not stored). A path that \<^verbatim>\<open>os.Stat\<close> cannot examine (the name
  is too long, a component of it is not a directory or may not be searched: an error other
  than not-exist) is mapped to \<open>StatError\<close>. What the host answers besides is given by a record
  of type \<open>host\<close>, one per call of an operation, so that every failure of an executable or
  a system call is an input of the model:
  \<^item> \<open>LookPath\<close>: the result of \<^verbatim>\<open>exec.LookPath\<close> for a command name;
  \<^item> \<open>cmdError\<close>: the error of \<^verbatim>\<open>CombinedOutput\<close> for a command and its arguments
    (\<open>None\<close> when the command exits with status 0), as the text of \<^verbatim>\<open>err.Error()\<close>;
  \<^item> \<open>cmdOutput\<close>: the combined output of a command whose output is not determined
    by the file system (\<^verbatim>\<open>findmnt\<close>, \<^verbatim>\<open>losetup\<close>);
  \<^item> \<open>Statfs\<close>: the result of \<^verbatim>\<open>syscall.Statfs\<close> on a path;
  \<^item> \<open>Unmarshal\<close>: what \<^verbatim>\<open>json.Unmarshal\<close> makes of the output of \<^verbatim>\<open>findmnt -J\<close>;
  \<^item> \<open>SprintfVerbs\<close>: what \<^verbatim>\<open>fmt.Sprintf\<close> prints for a format that contains
    \<^verbatim>\<open>%\<close> when it is given no operands;
  \<^item> \<open>resize2fsData\<close>: the bytes of an image after \<^verbatim>\<open>resize2fs\<close> has rewritten its
    file system.
\<close>

datatype node = Directory | Regular nat string | StatError

type_synonym world = "string \<rightharpoonup> node"

datatype look_result = Found | ErrNotFound | LookError string

record statfs_t =
  Bsize :: int64
  Blocks :: "64 word"
  Bfree :: "64 word"
  Bavail :: "64 word"
  Files :: "64 word"
  Ffree :: "64 word"

record findmnt_fs =
  Target :: string
  Propagation :: string
  FsType :: string
  Options :: string

datatype unmarshal_result =
  UnmarshalError string
| NilResponse
| Response "findmnt_fs list"

record host =
  LookPath :: "string \<Rightarrow> look_result"
  cmdError :: "string \<Rightarrow> string list \<Rightarrow> string option"
  cmdOutput :: "string \<Rightarrow> string list \<Rightarrow> string"
  Statfs :: "string \<Rightarrow> string + statfs_t"
  Unmarshal :: "string \<Rightarrow> unmarshal_result"
  SprintfVerbs :: "string \<Rightarrow> string"
  resize2fsData :: "string \<Rightarrow> string"

text \<open>
  Every operation looks its executable up before it runs it:
  \<^verbatim>\<open>
  if _, err := exec.LookPath(cmd); err != nil {
      if err == exec.ErrNotFound {
          return fmt.Errorf("%q executable not found in $PATH", cmd)
      }
      return fmt.Errorf("error on check executable: %w", err)
  }
  \<close>
  The command names are plain ASCII words, which \<^verbatim>\<open>%q\<close> prints between double quotes.
\<close>

definition checkExecutable :: "host \<Rightarrow> string \<Rightarrow> error option" where
  "checkExecutable h cmd =
     (case LookPath h cmd of
        Found \<Rightarrow> None
      | ErrNotFound \<Rightarrow> Some (Errorf (''\"'' @ cmd @ ''\" executable not found in $PATH''))
      | LookError e \<Rightarrow> Some (Errorf (''error on check executable: '' @ e)))"

text \<open>
  The executables' effects on the file system, as their manuals give them.
  \<^item> \<^verbatim>\<open>truncate -s SIZE FILE\<close> (GNU coreutils) sets the length of FILE to SIZE and
    creates FILE when it is absent. A SIZE printed with a leading \<^verbatim>\<open>-\<close> means
    "reduce by": the length becomes the current length less the amount, and not less
    than 0; an absent file is created and has current length 0. Bytes beyond the new
    length are lost. The command fails on a directory and on a path that cannot be
    examined.
  \<^item> \<^verbatim>\<open>rm -f FILE\<close> removes FILE.
  \<^item> \<^verbatim>\<open>stat -c %s FILE\<close> prints the length of FILE in decimal and a newline.
  A command that fails leaves the file system as it was.
\<close>

definition truncateFile :: "world \<Rightarrow> string \<Rightarrow> int \<Rightarrow> world option" where
  "truncateFile w filename sz =
     (case w filename of
        Some Directory \<Rightarrow> None
      | Some StatError \<Rightarrow> None
      | None \<Rightarrow> Some (w(filename \<mapsto> Regular (if 0 \<le> sz then nat sz else 0) []))
      | Some (Regular n d) \<Rightarrow>
          (let n' = (if 0 \<le> sz then nat sz else n - nat (- sz))
           in Some (w(filename \<mapsto> Regular n' (take n' d)))))"

definition runTruncate :: "host \<Rightarrow> world \<Rightarrow> string list \<Rightarrow> string \<Rightarrow> int \<Rightarrow> string option \<times> world" where
  "runTruncate h w args filename sz =
     (case cmdError h ''truncate'' args of
        Some e \<Rightarrow> (Some e, w)
      | None \<Rightarrow>
          (case truncateFile w filename sz of
             None \<Rightarrow> (Some ''exit status 1'', w)
           | Some w' \<Rightarrow> (None, w')))"

definition runRm :: "host \<Rightarrow> world \<Rightarrow> string list \<Rightarrow> string \<Rightarrow> string option \<times> world" where
  "runRm h w args filename =
     (case cmdError h ''rm'' args of
        Some e \<Rightarrow> (Some e, w)
      | None \<Rightarrow> (None, w(filename := None)))"

definition fileSize :: "world \<Rightarrow> string \<Rightarrow> nat option" where
  "fileSize w filename =
     (case w filename of Some (Regular n d) \<Rightarrow> Some n | _ \<Rightarrow> None)"

text \<open>The output of \<^verbatim>\<open>stat -c %s\<close> for a file of length \<open>n\<close>.\<close>

definition statOutput :: "nat \<Rightarrow> string" where
  "statOutput n = FormatUint n @ [CHR 0x0A]"

section \<open>Messages and configuration\<close>

text \<open>
  The messages of package \<^verbatim>\<open>csi\<close> that the handlers read. A pointer that may be nil is
  an \<open>option\<close>; a nil slice and an empty one are both the empty list; a Go map is a map.
  Field names that several messages share (\<^verbatim>\<open>VolumeId\<close>, \<^verbatim>\<open>CapacityRange\<close>, ...) carry
  the message's prefix in all but one of the records, since a field name is declared once.
  The elements of a repeated field are taken to be non-nil, as they are in a decoded
  message, and an access mode to be one of the named values of the enumeration.
\<close>

record CapacityRange =
  RequiredBytes :: int64
  LimitBytes :: int64

datatype AccessMode_Mode =
  UNKNOWN
| SINGLE_NODE_WRITER
| SINGLE_NODE_READER_ONLY
| MULTI_NODE_READER_ONLY
| MULTI_NODE_SINGLE_WRITER
| MULTI_NODE_MULTI_WRITER
| SINGLE_NODE_SINGLE_WRITER
| SINGLE_NODE_MULTI_WRITER

fun Mode_String :: "AccessMode_Mode \<Rightarrow> string" where
  "Mode_String UNKNOWN = ''UNKNOWN''"
| "Mode_String SINGLE_NODE_WRITER = ''SINGLE_NODE_WRITER''"
| "Mode_String SINGLE_NODE_READER_ONLY = ''SINGLE_NODE_READER_ONLY''"
| "Mode_String MULTI_NODE_READER_ONLY = ''MULTI_NODE_READER_ONLY''"
| "Mode_String MULTI_NODE_SINGLE_WRITER = ''MULTI_NODE_SINGLE_WRITER''"
| "Mode_String MULTI_NODE_MULTI_WRITER = ''MULTI_NODE_MULTI_WRITER''"
| "Mode_String SINGLE_NODE_SINGLE_WRITER = ''SINGLE_NODE_SINGLE_WRITER''"
| "Mode_String SINGLE_NODE_MULTI_WRITER = ''SINGLE_NODE_MULTI_WRITER''"

record AccessMode =
  Mode :: AccessMode_Mode

record MountVolume =
  Mount_FsType :: string
  MountFlags :: "string list"

datatype AccessType = VolumeCapability_Block | VolumeCapability_Mount MountVolume

record VolumeCapability =
  AccessType :: "AccessType option"
  AccessMode :: "AccessMode option"

record Topology =
  Segments :: "string \<rightharpoonup> string"

record TopologyRequirement =
  Requisite :: "Topology list"
  Preferred :: "Topology list"

record CreateVolumeRequest =
  Name :: string
  CapacityRange :: "CapacityRange option"
  VolumeCapabilities :: "VolumeCapability list"
  AccessibilityRequirements :: "TopologyRequirement option"

record Volume =
  CapacityBytes :: int64
  VolumeId :: string
  AccessibleTopology :: "Topology list"

record CreateVolumeResponse =
  Volume :: Volume

record DeleteVolumeRequest =
  Delete_VolumeId :: string

record ControllerExpandVolumeRequest =
  Controller_VolumeId :: string
  Controller_CapacityRange :: "CapacityRange option"

record ControllerExpandVolumeResponse =
  Controller_CapacityBytes :: int64
  NodeExpansionRequired :: bool

record NodeExpandVolumeRequest =
  Node_VolumeId :: string
  Node_VolumePath :: string
  Node_CapacityRange :: "CapacityRange option"
  Node_VolumeCapability :: "VolumeCapability option"

record NodeExpandVolumeResponse =
  Node_CapacityBytes :: int64

text \<open>The configuration of the image controller and of the plugin.\<close>

record SparseFileVolumeController =
  imagesDir :: string
  directIO :: bool

record Plugin =
  nodeId :: string
  nodeNameTopologyKey :: string
  volumeController :: SparseFileVolumeController

section \<open>The image controller: \<^verbatim>\<open>SparseFileVolumeController\<close>\<close>

definition getImageFullPath :: "SparseFileVolumeController \<Rightarrow> string \<Rightarrow> string" where
  "getImageFullPath s volumeId = TrimSuffix (imagesDir s) ''/'' @ ''/'' @ volumeId @ ''.img''"

text \<open>
  \<^verbatim>\<open>
  func (s *SparseFileVolumeController) isFileExists(filename string) bool {
      info, err := os.Stat(filename)
      if os.IsNotExist(err) {
          return false
      }
      return !info.IsDir()
  }
  \<close>
  When \<^verbatim>\<open>os.Stat\<close> fails with an error other than not-exist, \<^verbatim>\<open>info\<close> is nil and
  \<^verbatim>\<open>info.IsDir()\<close> panics.
\<close>

definition isFileExists :: "world \<Rightarrow> string \<Rightarrow> bool go" where
  "isFileExists w filename =
     (case w filename of
        None \<Rightarrow> Return False
      | Some StatError \<Rightarrow> Panic
      | Some Directory \<Rightarrow> Return False
      | Some (Regular n d) \<Rightarrow> Return True)"

definition truncate :: "host \<Rightarrow> world \<Rightarrow> string \<Rightarrow> int64 \<Rightarrow> error option \<times> world" where
  "truncate h w filename sizeBytes =
     (let truncateCmd = ''truncate'' in
      case checkExecutable h truncateCmd of
        Some e \<Rightarrow> (Some e, w)
      | None \<Rightarrow>
          (let args = [''-s'', FormatInt (sint sizeBytes), filename] in
           case runTruncate h w args filename (sint sizeBytes) of
             (Some err, w') \<Rightarrow>
               (Some (Errorf (''error exec command ('' @ truncateCmd @ ''): '' @ err)), w')
           | (None, w') \<Rightarrow> (None, w')))"

text \<open>The operations below return an error or nil, unless they panic, and the file system
  they leave.\<close>

definition Create :: "SparseFileVolumeController \<Rightarrow> host \<Rightarrow> world \<Rightarrow> string \<Rightarrow> int64 \<Rightarrow> error option go \<times> world" where
  "Create s h w volumeId sizeBytes =
     (if volumeId = '''' then (Return (Some (Errorf ''volumeId can't be empty'')), w)
      else if sizeBytes = 0 then (Return (Some (Errorf ''size can't be equal 0'')), w)
      else
        (let filename = getImageFullPath s volumeId in
         case isFileExists w filename of
           Panic \<Rightarrow> (Panic, w)
         | Return True \<Rightarrow> (Return None, w)
         | Return False \<Rightarrow>
             (case truncate h w filename sizeBytes of
                (Some err, w') \<Rightarrow>
                  (Return (Some (Errorf (''error truncate file: '' @ Error err))), w')
              | (None, w') \<Rightarrow> (Return None, w'))))"

definition Delete :: "SparseFileVolumeController \<Rightarrow> host \<Rightarrow> world \<Rightarrow> string \<Rightarrow> error option go \<times> world" where
  "Delete s h w volumeId =
     (if volumeId = '''' then (Return (Some (Errorf ''volumeId can't be empty'')), w)
      else
        (let filename = getImageFullPath s volumeId in
         case isFileExists w filename of
           Panic \<Rightarrow> (Panic, w)
         | Return False \<Rightarrow> (Return None, w)
         | Return True \<Rightarrow>
             (let removeCmd = ''rm'' in
              case checkExecutable h removeCmd of
                Some e \<Rightarrow> (Return (Some e), w)
              | None \<Rightarrow>
                  (let args = [''-f'', filename] in
                   case runRm h w args filename of
                     (Some err, w') \<Rightarrow>
                       (Return (Some (Errorf (''error exec command ('' @ removeCmd @ ''): ''
                          @ err))), w')
                   | (None, w') \<Rightarrow> (Return None, w')))))"

definition GetCapacity :: "SparseFileVolumeController \<Rightarrow> host \<Rightarrow> error + int64" where
  "GetCapacity s h =
     (case Statfs h (imagesDir s) of
        Inl err \<Rightarrow> Inl (Errorf (''error get storage capacity stats: '' @ err))
      | Inr fs \<Rightarrow> Inr (Bfree fs * Bsize fs))"

definition GetVolumeSize :: "SparseFileVolumeController \<Rightarrow> host \<Rightarrow> world \<Rightarrow> string \<Rightarrow> (error + int64) go" where
  "GetVolumeSize s h w volumeId =
     (if volumeId = '''' then Return (Inl (Errorf ''volumeId can't be empty''))
      else
        (let filename = getImageFullPath s volumeId in
         case isFileExists w filename of
           Panic \<Rightarrow> Panic
         | Return False \<Rightarrow> Return (Inl ErrorVolumeNotFound)
         | Return True \<Rightarrow>
             (let statCmd = ''stat'' in
              case checkExecutable h statCmd of
                Some e \<Rightarrow> Return (Inl e)
              | None \<Rightarrow>
                  (let args = [''-c'', ''%s'', filename] in
                   case cmdError h statCmd args of
                     Some err \<Rightarrow>
                       Return (Inl (Errorf (''error exec command ('' @ statCmd @ ''): '' @ err)))
                   | None \<Rightarrow>
                       (case fileSize w filename of
                          None \<Rightarrow>
                            Return (Inl (Errorf (''error exec command ('' @ statCmd
                              @ ''): exit status 1'')))
                        | Some n \<Rightarrow>
                            (case ParseInt (TrimSpace (statOutput n)) of
                               Inl err \<Rightarrow> Return (Inl (Errorf (''error parse output: '' @ err)))
                             | Inr sz \<Rightarrow> Return (Inr sz)))))))"

definition ExpandVolumeSize :: "SparseFileVolumeController \<Rightarrow> host \<Rightarrow> world \<Rightarrow> string \<Rightarrow> int64 \<Rightarrow> error option go \<times> world" where
  "ExpandVolumeSize s h w volumeId newSizeBytes =
     (if volumeId = '''' then (Return (Some (Errorf ''volumeId can't be empty'')), w)
      else if sint newSizeBytes \<le> 0 then
        (Return (Some (Errorf ''size can't be less or equal 0'')), w)
      else
        (let filename = getImageFullPath s volumeId in
         case isFileExists w filename of
           Panic \<Rightarrow> (Panic, w)
         | Return False \<Rightarrow> (Return (Some ErrorVolumeNotFound), w)
         | Return True \<Rightarrow>
             (case GetVolumeSize s h w volumeId of
                Panic \<Rightarrow> (Panic, w)
              | Return (Inl err) \<Rightarrow>
                  (Return (Some (Errorf (''error get current volume size: '' @ Error err))), w)
              | Return (Inr currentSize) \<Rightarrow>
                  (case GetCapacity s h of
                     Inl err \<Rightarrow>
                       (Return (Some (Errorf (''error get storage capacity: '' @ Error err))), w)
                   | Inr available \<Rightarrow>
                       (let addSize = newSizeBytes - currentSize in
                        if sint available \<le> sint addSize then
                          (Return (Some (Errorf (''addiditional space (''
                              @ FormatInt (sint addSize)
                              @ '') is not available. '' @ FormatInt (sint available)
                              @ '' bytes is available on storage''))), w)
                        else if 0 < sint addSize then
                          (case truncate h w filename newSizeBytes of
                             (Some err, w') \<Rightarrow>
                               (Return (Some (Errorf (''error truncate file: '' @ Error err))), w')
                           | (None, w') \<Rightarrow> (Return None, w'))
                        else (Return None, w))))))"

definition GetDeviceByVolumeId :: "SparseFileVolumeController \<Rightarrow> host \<Rightarrow> world \<Rightarrow> string \<Rightarrow> (error + string) go" where
  "GetDeviceByVolumeId s h w volumeId =
     (if volumeId = '''' then Return (Inl (Errorf ''volumeId can't be empty''))
      else
        (let filename = getImageFullPath s volumeId in
         case isFileExists w filename of
           Panic \<Rightarrow> Panic
         | Return False \<Rightarrow> Return (Inl ErrorVolumeNotFound)
         | Return True \<Rightarrow>
             (let loSetupCmd = ''losetup'' in
              case checkExecutable h loSetupCmd of
                Some e \<Rightarrow> Return (Inl e)
              | None \<Rightarrow>
                  (let args = [''--associated'', filename] in
                   case cmdError h loSetupCmd args of
                     Some err \<Rightarrow>
                       Return (Inl (Errorf (''error exec command ('' @ loSetupCmd @ ''): ''
                         @ err)))
                   | None \<Rightarrow>
                       (case Split (TrimSpace (cmdOutput h loSetupCmd args)) CHR '':'' of
                          dev # rest \<Rightarrow> Return (Inr dev)
                        | [] \<Rightarrow> Return (Inr ''''))))))"

definition expandLoopDevice :: "host \<Rightarrow> string \<Rightarrow> error option" where
  "expandLoopDevice h device =
     (let loSetupCmd = ''losetup'' in
      case checkExecutable h loSetupCmd of
        Some e \<Rightarrow> Some e
      | None \<Rightarrow>
          (let args = [''--set-capacity'', device] in
           case cmdError h loSetupCmd args of
             Some err \<Rightarrow> Some (Errorf (''error exec command ('' @ loSetupCmd @ ''): '' @ err))
           | None \<Rightarrow> None))"

text \<open>\<^verbatim>\<open>resize2fs FILE\<close> rewrites the file system inside the image; the length of the
  image file stays.\<close>

definition resizeFs :: "host \<Rightarrow> world \<Rightarrow> string \<Rightarrow> error option go \<times> world" where
  "resizeFs h w filename =
     (case isFileExists w filename of
        Panic \<Rightarrow> (Panic, w)
      | Return False \<Rightarrow> (Return (Some ErrorVolumeNotFound), w)
      | Return True \<Rightarrow>
          (let resize2fsCmd = ''resize2fs'' in
           case checkExecutable h resize2fsCmd of
             Some e \<Rightarrow> (Return (Some e), w)
           | None \<Rightarrow>
               (let args = [filename] in
                case cmdError h resize2fsCmd args of
                  Some err \<Rightarrow>
                    (Return (Some (Errorf (''error exec command ('' @ resize2fsCmd @ ''): ''
                       @ err))), w)
                | None \<Rightarrow>
                    (case w filename of
                       Some (Regular n d) \<Rightarrow>
                         (Return None, w(filename \<mapsto> Regular n (resize2fsData h d)))
                     | _ \<Rightarrow> (Return None, w)))))"

definition ResizeDeviceFileSystem :: "SparseFileVolumeController \<Rightarrow> host \<Rightarrow> world \<Rightarrow> string \<Rightarrow> error option go \<times> world" where
  "ResizeDeviceFileSystem s h w volumeId =
     (if volumeId = '''' then (Return (Some (Errorf ''volumeId can't be empty'')), w)
      else
        (let filename = getImageFullPath s volumeId in
         case isFileExists w filename of
           Panic \<Rightarrow> (Panic, w)
         | Return False \<Rightarrow> (Return (Some ErrorVolumeNotFound), w)
         | Return True \<Rightarrow>
             (case GetDeviceByVolumeId s h w volumeId of
                Panic \<Rightarrow> (Panic, w)
              | Return (Inl err) \<Rightarrow>
                  (Return (Some (Errorf (''error get loop device: '' @ Error err))), w)
              | Return (Inr dev) \<Rightarrow>
                  if dev = '''' then (Return (Some ErrorVolumeNotFound), w)
                  else
                    (case expandLoopDevice h dev of
                       Some err \<Rightarrow>
                         (Return (Some (Errorf (''error expand loop device: '' @ Error err))), w)
                     | None \<Rightarrow>
                         (case resizeFs h w filename of
                            (Panic, w') \<Rightarrow> (Panic, w')
                          | (Return (Some err), w') \<Rightarrow>
                              (Return (Some (Errorf (''error resize filesystem: ''
                                 @ Error err))), w')
                          | (Return None, w') \<Rightarrow> (Return None, w'))))))"

section \<open>The mount manager: \<^verbatim>\<open>LinuxMounter.IsMounted\<close>\<close>

text \<open>
  The loop over the entries of the response:
  \<^verbatim>\<open>
  isMounted := false
  for _, fs := range resp.FileSystems {
      if fs.Propagation != "shared" {
          return true, fmt.Errorf("bad mount propagation (%s) for target %s", fs.Propagation, target)
      }
      if fs.Target == target {
          isMounted = true
      }
  }
  return isMounted, nil
  \<close>
\<close>

fun scanFileSystems :: "string \<Rightarrow> bool \<Rightarrow> findmnt_fs list \<Rightarrow> bool \<times> error option" where
  "scanFileSystems target isMounted [] = (isMounted, None)"
| "scanFileSystems target isMounted (fs # rest) =
     (if Propagation fs \<noteq> ''shared'' then
        (True, Some (Errorf (''bad mount propagation ('' @ Propagation fs
            @ '') for target '' @ target)))
      else scanFileSystems target (if Target fs = target then True else isMounted) rest)"

definition IsMounted :: "host \<Rightarrow> string \<Rightarrow> (bool \<times> error option) go" where
  "IsMounted h target =
     (if target = '''' then Return (False, Some (Errorf ''isMounted target can't be empty''))
      else
        (let findMntCmd = ''findmnt'' in
         case checkExecutable h findMntCmd of
           Some e \<Rightarrow> Return (False, Some e)
         | None \<Rightarrow>
             (let args = [''-o'', ''TARGET,PROPAGATION,FSTYPE,OPTIONS'', ''-J'', ''-M'', target];
                  out = cmdOutput h findMntCmd args
              in
              case cmdError h findMntCmd args of
                Some err \<Rightarrow>
                  if TrimSpace out = '''' then Return (False, None)
                  else Return (False,
                    Some (Errorf (''error exec command ('' @ findMntCmd @ ''): '' @ err)))
              | None \<Rightarrow>
                  if TrimSpace out = '''' then Return (False, None)
                  else
                    (case Unmarshal h out of
                       UnmarshalError err \<Rightarrow>
                         Return (False, Some (Errorf (''error on unmarshal: '' @ err)))
                     | NilResponse \<Rightarrow> Panic
                     | Response fileSystems \<Rightarrow>
                         Return (scanFileSystems target False fileSystems)))))"

section \<open>The plugin: constants and the RPC handlers\<close>

text \<open>
  \<^verbatim>\<open>
  const (
      _  = iota
      Kb = 1 << (10 * iota)
      Mb
      Gb
  )
  const (
      defaultVolumeSize int64 = 1 * Gb
      minimumVolumeSize int64 = 1 * Gb
      maximumVolumeSize int64 = 200 * Gb
  )
  \<close>
\<close>

definition Kb :: int64 where "Kb = push_bit (10 * 1) 1"
definition Mb :: int64 where "Mb = push_bit (10 * 2) 1"
definition Gb :: int64 where "Gb = push_bit (10 * 3) 1"

definition defaultVolumeSize :: int64 where "defaultVolumeSize = 1 * Gb"
definition minimumVolumeSize :: int64 where "minimumVolumeSize = 1 * Gb"
definition maximumVolumeSize :: int64 where "maximumVolumeSize = 200 * Gb"

text \<open>\<^verbatim>\<open>calculateVolumeSize\<close>; a nil \<^verbatim>\<open>*csi.CapacityRange\<close> is \<open>None\<close>.\<close>

definition calculateVolumeSize :: "CapacityRange option \<Rightarrow> error + int64" where
  "calculateVolumeSize capRange =
     (case capRange of
        None \<Rightarrow> Inr defaultVolumeSize
      | Some cr \<Rightarrow>
          (let required = RequiredBytes cr;
               requiredSet = (0 <s required);
               limit = LimitBytes cr;
               limitSet = (0 <s limit)
           in
           if \<not> requiredSet \<and> \<not> limitSet then Inr defaultVolumeSize
           else if requiredSet \<and> limitSet \<and> limit <s required then
             Inl (Errorf (''limit ('' @ FormatInt (sint limit)
               @ '') can't be less than required ('' @ FormatInt (sint required) @ '') size''))
           else if requiredSet \<and> required <s minimumVolumeSize then
             Inl (Errorf (''required ('' @ FormatInt (sint required)
               @ '') can't be less than minimum supported volume size (''
               @ FormatInt (sint minimumVolumeSize) @ '')''))
           else if limitSet \<and> limit <s minimumVolumeSize then
             Inl (Errorf (''limit ('' @ FormatInt (sint limit)
               @ '') can't be less than minimum supported volume size (''
               @ FormatInt (sint minimumVolumeSize) @ '')''))
           else if requiredSet \<and> maximumVolumeSize <s required then
             Inl (Errorf (''required ('' @ FormatInt (sint required)
               @ '') can't be greater than maximum supported volume size (''
               @ FormatInt (sint maximumVolumeSize) @ '')''))
           else if limitSet \<and> maximumVolumeSize <s limit then
             Inl (Errorf (''limit ('' @ FormatInt (sint limit)
               @ '') can't be greater than maximum supported volume size (''
               @ FormatInt (sint maximumVolumeSize) @ '')''))
           else if requiredSet \<and> limitSet \<and> required = limit then Inr limit
           else if limitSet then Inr limit
           else if requiredSet then Inr required
           else Inr defaultVolumeSize))"

text \<open>The status codes of gRPC and the status an RPC fails with.\<close>

datatype code =
  OK | Canceled | Unknown | InvalidArgument | DeadlineExceeded | NotFound | AlreadyExists
| PermissionDenied | ResourceExhausted | FailedPrecondition | Aborted | OutOfRange
| Unimplemented | Internal | Unavailable | DataLoss | Unauthenticated

datatype status = Status code string

text \<open>
  The plugin's configuration, and what its logger records: the level and the message of
  each call of \<^verbatim>\<open>p.logger\<close>, in order (the fields attached to a message are left out).
  A handler returns the log it wrote, its result (a status or a response, unless it
  panics), and the file system it leaves.
\<close>

datatype level = DebugLevel | InfoLevel | ErrorLevel

type_synonym log = "(level \<times> string) list"

type_synonym 'a rpc = "log \<times> (status + 'a) go \<times> world"

text \<open>\<^verbatim>\<open>fmt.Sprintf(format)\<close> with no operands prints a format without \<^verbatim>\<open>%\<close> as it is.\<close>

definition SprintfNoOperands :: "host \<Rightarrow> string \<Rightarrow> string" where
  "SprintfNoOperands h format =
     (if CHR ''%'' \<in> set format then SprintfVerbs h format else format)"

text \<open>
  The loop of \<^verbatim>\<open>CreateVolume\<close> over the capabilities; \<open>None\<close> when every capability
  passes. \<^verbatim>\<open>c.AccessMode.Mode\<close> dereferences the pointer \<^verbatim>\<open>c.AccessMode\<close>.
  \<^verbatim>\<open>
  for _, c := range request.VolumeCapabilities {
      if c.AccessMode.Mode != csi.VolumeCapability_AccessMode_SINGLE_NODE_WRITER {
          return nil, status.Errorf(codes.InvalidArgument,
              "CreateVolume (%s) unsupported access mode: %s", volumeId, c.GetAccessMode().GetMode().String())
      }
      accessType := c.AccessType
      switch accessType.(type) {
      case *csi.VolumeCapability_Mount:
      default:
          return nil, status.Errorf(codes.InvalidArgument, "CreateVolume (%s) unsupported access type", volumeId)
      }
  }
  \<close>
\<close>

fun checkCapabilities :: "string \<Rightarrow> VolumeCapability list \<Rightarrow> status option go" where
  "checkCapabilities volumeId [] = Return None"
| "checkCapabilities volumeId (c # cs) =
     (case AccessMode c of
        None \<Rightarrow> Panic
      | Some am \<Rightarrow>
          if Mode am \<noteq> SINGLE_NODE_WRITER then
            Return (Some (Status InvalidArgument (''CreateVolume ('' @ volumeId
              @ '') unsupported access mode: '' @ Mode_String (Mode am))))
          else
            (case AccessType c of
               Some (VolumeCapability_Mount m) \<Rightarrow> checkCapabilities volumeId cs
             | _ \<Rightarrow>
                 Return (Some (Status InvalidArgument (''CreateVolume ('' @ volumeId
                   @ '') unsupported access type'')))))"

definition CreateVolume :: "Plugin \<Rightarrow> host \<Rightarrow> world \<Rightarrow> CreateVolumeRequest \<Rightarrow> CreateVolumeResponse rpc" where
  "CreateVolume p h w request =
     (let volumeId = Name request;
          called = [(DebugLevel, ''CreateVolume called'')]
      in
      if volumeId = '''' then
        (called, Return (Inl (Status InvalidArgument ''CreateVolume invalid argument: name'')), w)
      else if length (VolumeCapabilities request) = 0 then
        (called, Return (Inl (Status InvalidArgument (''CreateVolume ('' @ volumeId
           @ '') invalid argument: volumeCapabilities''))), w)
      else
        (case checkCapabilities volumeId (VolumeCapabilities request) of
           Panic \<Rightarrow> (called, Panic, w)
         | Return (Some st) \<Rightarrow> (called, Return (Inl st), w)
         | Return None \<Rightarrow>
             (case AccessibilityRequirements request of
                None \<Rightarrow> (called, Panic, w)
              | Some requirements \<Rightarrow>
                  (case Preferred requirements of
                     [] \<Rightarrow>
                       (called @ [(ErrorLevel, ''No preferred topology set. Make sure that external-provisioner run with --strict-topology flag.'')],
                        Return (Inl (Status InvalidArgument (''CreateVolume ('' @ volumeId
                          @ '') invalid argument: no preferred topology set''))), w)
                   | topology # others \<Rightarrow>
                       (case Segments topology (nodeNameTopologyKey p) of
                          None \<Rightarrow>
                            (called, Return (Inl (Status InvalidArgument
                               (SprintfNoOperands h (''CreateVolume ('' @ volumeId
                                  @ '') topology key ('' @ nodeNameTopologyKey p
                                  @ '') not found'')))), w)
                        | Some nodeName \<Rightarrow>
                            (case calculateVolumeSize (CapacityRange request) of
                               Inl err \<Rightarrow>
                                 (called, Return (Inl (Status OutOfRange (''CreateVolume (''
                                    @ volumeId @ '') invalid argument: capacityRange: ''
                                    @ Error err))), w)
                             | Inr sz \<Rightarrow>
                                 (case Create (volumeController p) h w volumeId sz of
                                    (Panic, w') \<Rightarrow> (called, Panic, w')
                                  | (Return (Some err), w') \<Rightarrow>
                                      if err = ErrorVolumeAlreadyExists then
                                        (called @ [(InfoLevel, ''Volume already exists'')],
                                         Return (Inr \<lparr>Volume = \<lparr>CapacityBytes = sz,
                                           VolumeId = volumeId, AccessibleTopology = []\<rparr>\<rparr>), w')
                                      else
                                        (called, Return (Inl (Status Internal (''CreateVolume (''
                                           @ volumeId @ '') error create volume: '' @ Error err))), w')
                                  | (Return None, w') \<Rightarrow>
                                      (called @ [(InfoLevel, ''Volume was created'')],
                                       Return (Inr \<lparr>Volume = \<lparr>CapacityBytes = sz,
                                         VolumeId = volumeId,
                                         AccessibleTopology =
                                           [\<lparr>Segments = [nodeNameTopologyKey p \<mapsto> nodeName]\<rparr>]\<rparr>\<rparr>),
                                       w'))))))))"

definition DeleteVolume :: "Plugin \<Rightarrow> host \<Rightarrow> world \<Rightarrow> DeleteVolumeRequest \<Rightarrow> unit rpc" where
  "DeleteVolume p h w request =
     (let volumeId = Delete_VolumeId request;
          called = [(DebugLevel, ''DeleteVolume called'')]
      in
      if volumeId = '''' then
        (called, Return (Inl (Status InvalidArgument ''DeleteVolume invalid argument: volumeId'')), w)
      else
        (case Delete (volumeController p) h w volumeId of
           (Panic, w') \<Rightarrow> (called, Panic, w')
         | (Return (Some err), w') \<Rightarrow>
             if err = ErrorVolumeNotFound then
               (called @ [(InfoLevel, ''Assuming volume is already deleted because it does not exist'')],
                Return (Inr ()), w')
             else
               (called, Return (Inl (Status Internal (''DeleteVolume ('' @ volumeId
                  @ '') error delete volume: '' @ Error err))), w')
         | (Return None, w') \<Rightarrow>
             (called @ [(InfoLevel, ''Volume was deleted'')], Return (Inr ()), w')))"

definition ControllerExpandVolume :: "Plugin \<Rightarrow> world \<Rightarrow> ControllerExpandVolumeRequest \<Rightarrow> ControllerExpandVolumeResponse rpc" where
  "ControllerExpandVolume p w request =
     (let volumeId = Controller_VolumeId request;
          called = [(DebugLevel, ''ControllerExpandVolume called'')]
      in
      if volumeId = '''' then
        (called, Return (Inl (Status InvalidArgument
           ''ControllerExpandVolume invalid argument: name'')), w)
      else
        (case calculateVolumeSize (Controller_CapacityRange request) of
           Inl err \<Rightarrow>
             (called, Return (Inl (Status OutOfRange (''ControllerExpandVolume ('' @ volumeId
                @ '') invalid argument: capacityRange: '' @ Error err))), w)
         | Inr sz \<Rightarrow>
             (called, Return (Inr \<lparr>Controller_CapacityBytes = sz,
                NodeExpansionRequired = True\<rparr>), w)))"

definition NodeExpandVolume :: "Plugin \<Rightarrow> host \<Rightarrow> world \<Rightarrow> NodeExpandVolumeRequest \<Rightarrow> NodeExpandVolumeResponse rpc" where
  "NodeExpandVolume p h w request =
     (let volumeId = Node_VolumeId request;
          called = [(DebugLevel, ''NodeExpandVolume called'')]
      in
      if Node_VolumeId request = '''' then
        (called, Return (Inl (Status InvalidArgument
           ''NodeExpandVolume invalid argument: VolumeId'')), w)
      else
        (case Node_VolumeCapability request of
           None \<Rightarrow>
             (called, Return (Inl (Status InvalidArgument (''NodeExpandVolume ('' @ volumeId
                @ '') invalid argument: VolumeCapability''))), w)
         | Some capability \<Rightarrow>
             (case AccessType capability of
                Some (VolumeCapability_Mount m) \<Rightarrow>
                  (case calculateVolumeSize (Node_CapacityRange request) of
                     Inl err \<Rightarrow>
                       (called, Return (Inl (Status OutOfRange (''NodeExpandVolume ('' @ volumeId
                          @ '') invalid argument: capacityRange: '' @ Error err))), w)
                   | Inr sz \<Rightarrow>
                       (case ExpandVolumeSize (volumeController p) h w volumeId sz of
                          (Panic, w') \<Rightarrow> (called, Panic, w')
                        | (Return (Some err), w') \<Rightarrow>
                            if err = ErrorVolumeNotFound then
                              (called, Return (Inl (Status NotFound
                                 (''NodeExpandVolume error expand volume size: volume (''
                                    @ volumeId @ '') not found''))), w')
                            else
                              (called, Return (Inl (Status Internal (''NodeExpandVolume (''
                                 @ volumeId @ '') error expand volume size: '' @ Error err))), w')
                        | (Return None, w') \<Rightarrow>
                            (case ResizeDeviceFileSystem (volumeController p) h w' volumeId of
                               (Panic, w'') \<Rightarrow> (called, Panic, w'')
                             | (Return (Some err), w'') \<Rightarrow>
                                 (called, Return (Inl (Status Internal (''NodeExpandVolume (''
                                    @ volumeId @ '') error resize filesystem: '' @ Error err))), w'')
                             | (Return None, w'') \<Rightarrow>
                                 (called @ [(InfoLevel, ''NodeExpandVolume volume was expanded'')],
                                  Return (Inr \<lparr>Node_CapacityBytes = sz\<rparr>), w''))))
              | _ \<Rightarrow>
                  (called, Return (Inl (Status Unimplemented (''NodeExpandVolume ('' @ volumeId
                     @ '') unsupported access type''))), w))))"

text \<open>A sequence of calls of \<^verbatim>\<open>ExpandVolumeSize\<close>, each with the host's answers at the
  time of the call, a volume id and a new size; the file system is threaded through.\<close>

fun expandCalls :: "SparseFileVolumeController \<Rightarrow> (host \<times> string \<times> int64) list \<Rightarrow> world \<Rightarrow> world" where
  "expandCalls s [] w = w"
| "expandCalls s ((h, volumeId, newSizeBytes) # calls) w =
     expandCalls s calls (snd (ExpandVolumeSize s h w volumeId newSizeBytes))"

text \<open>Repeating one \<^verbatim>\<open>CreateVolume\<close> request, each time with the host's answers at the
  time of the call; the results of the calls are collected in order.\<close>

fun createCalls :: "Plugin \<Rightarrow> CreateVolumeRequest \<Rightarrow> host list \<Rightarrow> world \<Rightarrow> (status + CreateVolumeResponse) go list \<times> world" where
  "createCalls p request [] w = ([], w)"
| "createCalls p request (h # hs) w =
     (case CreateVolume p h w request of
        (lg, result, w') \<Rightarrow>
          (case createCalls p request hs w' of
             (results, w'') \<Rightarrow> (result # results, w'')))"

section \<open>A concrete node\<close>

text \<open>
  The configuration of the end-to-end scenarios: node \<^verbatim>\<open>n1\<close>, topology key
  \<^verbatim>\<open>hostname\<close>, images under \<^verbatim>\<open>/data\<close>. On \<open>hostWithFree k\<close> every executable is found
  and exits with status 0, and the images directory is on a file system with blocks of
  4096 bytes, \<open>k\<close> of them free.
\<close>

definition exampleController :: SparseFileVolumeController where
  "exampleController = \<lparr>imagesDir = ''/data'', directIO = False\<rparr>"

definition examplePlugin :: Plugin where
  "examplePlugin =
     \<lparr>nodeId = ''n1'', nodeNameTopologyKey = ''hostname'',
      volumeController = exampleController\<rparr>"

definition hostWithFree :: "nat \<Rightarrow> host" where
  "hostWithFree k =
     \<lparr>LookPath = (\<lambda>cmd. Found),
      cmdError = (\<lambda>cmd args. None),
      cmdOutput = (\<lambda>cmd args. ''''),
      Statfs = (\<lambda>path. Inr \<lparr>Bsize = 4096, Blocks = 52428800, Bfree = of_nat k,
        Bavail = of_nat k, Files = 13107200, Ffree = 13107200\<rparr>),
      Unmarshal = (\<lambda>out. Response []),
      SprintfVerbs = (\<lambda>format. format),
      resize2fsData = (\<lambda>d. d)\<rparr>"

text \<open>A host where no executable is found on the path.\<close>

definition hostWithoutTools :: host where
  "hostWithoutTools = (hostWithFree 0)\<lparr>LookPath := (\<lambda>cmd. ErrNotFound)\<rparr>"

text \<open>The request of scenario 1 (\<^verbatim>\<open>vol-a\<close>, one mount capability of a single writer, no
  capacity range), with the preferred topology segment naming the given node.\<close>

definition mountCapability :: VolumeCapability where
  "mountCapability =
     \<lparr>AccessType = Some (VolumeCapability_Mount \<lparr>Mount_FsType = '''', MountFlags = []\<rparr>),
      AccessMode = Some \<lparr>Mode = SINGLE_NODE_WRITER\<rparr>\<rparr>"

definition createVolA :: "string \<Rightarrow> CreateVolumeRequest" where
  "createVolA node =
     \<lparr>Name = ''vol-a'', CapacityRange = None, VolumeCapabilities = [mountCapability],
      AccessibilityRequirements =
        Some \<lparr>Requisite = [], Preferred = [\<lparr>Segments = [''hostname'' \<mapsto> node]\<rparr>]\<rparr>\<rparr>"

text \<open>What \<^verbatim>\<open>CreateVolume\<close> accepts as a capability: mount access for a single node writer.\<close>

definition mountSingleWriter :: "VolumeCapability \<Rightarrow> bool" where
  "mountSingleWriter c =
     (case (AccessType c, AccessMode c) of
        (Some (VolumeCapability_Mount m), Some am) \<Rightarrow> Mode am = SINGLE_NODE_WRITER
      | _ \<Rightarrow> False)"

text \<open>The requests that pass every check \<^verbatim>\<open>CreateVolume\<close> makes before it calls
  \<^verbatim>\<open>Create\<close>: a name, at least one capability, every capability mount access for a single
  writer, a non-empty preferred topology whose first segment holds the configured topology
  key, and a capacity range that \<^verbatim>\<open>calculateVolumeSize\<close> accepts.\<close>

definition acceptedRequest :: "Plugin \<Rightarrow> CreateVolumeRequest \<Rightarrow> bool" where
  "acceptedRequest p request =
     (Name request \<noteq> '''' \<and> VolumeCapabilities request \<noteq> [] \<and>
      list_all mountSingleWriter (VolumeCapabilities request) \<and>
      (case AccessibilityRequirements request of
         None \<Rightarrow> False
       | Some requirements \<Rightarrow>
           (case Preferred requirements of
              [] \<Rightarrow> False
            | topology # others \<Rightarrow> Segments topology (nodeNameTopologyKey p) \<noteq> None)) \<and>
      (case calculateVolumeSize (CapacityRange request) of
         Inl err \<Rightarrow> False
       | Inr sz \<Rightarrow> True))"

text \<open>A request to expand \<^verbatim>\<open>vol-a\<close> on the node to the given required size.\<close>

definition expandVolA :: "int64 \<Rightarrow> NodeExpandVolumeRequest" where
  "expandVolA required =
     \<lparr>Node_VolumeId = ''vol-a'', Node_VolumePath = ''/stage/vol-a'',
      Node_CapacityRange = Some \<lparr>RequiredBytes = required, LimitBytes = 0\<rparr>,
      Node_VolumeCapability = Some mountCapability\<rparr>"

text \<open>A host on which \<^verbatim>\<open>findmnt\<close> prints the given output, decoded to the given entries.\<close>

definition hostWithMounts :: "string option \<Rightarrow> string \<Rightarrow> findmnt_fs list \<Rightarrow> host" where
  "hostWithMounts exitError out fileSystems =
     \<lparr>LookPath = (\<lambda>cmd. Found),
      cmdError = (\<lambda>cmd args. exitError),
      cmdOutput = (\<lambda>cmd args. out),
      Statfs = (\<lambda>path. Inl ''no such file or directory''),
      Unmarshal = (\<lambda>output. Response fileSystems),
      SprintfVerbs = (\<lambda>format. format),
      resize2fsData = (\<lambda>d. d)\<rparr>"

section \<open>Capacity-range arithmetic\<close>

lemma sint_defaultVolumeSize: "sint defaultVolumeSize = 1073741824"
  by (simp add: defaultVolumeSize_def Gb_def)

lemma sint_minimumVolumeSize: "sint minimumVolumeSize = 1073741824"
  by (simp add: minimumVolumeSize_def Gb_def)

lemma sint_maximumVolumeSize: "sint maximumVolumeSize = 214748364800"
  by (simp add: maximumVolumeSize_def Gb_def)

lemmas calculate_simps =
  calculateVolumeSize_def Let_def word_sless_alt sint_minimumVolumeSize sint_maximumVolumeSize

lemma calculateVolumeSize_nil: "calculateVolumeSize None = Inr defaultVolumeSize"
  by (simp add: calculateVolumeSize_def)

lemma calculateVolumeSize_unset:
  "\<not> 0 < sint (RequiredBytes cr) \<Longrightarrow> \<not> 0 < sint (LimitBytes cr) \<Longrightarrow>
   calculateVolumeSize (Some cr) = Inr defaultVolumeSize"
  by (simp add: calculate_simps)

lemma calculateVolumeSize_bounds:
  assumes "calculateVolumeSize capRange = Inr sz"
  shows "1073741824 \<le> sint sz \<and> sint sz \<le> 214748364800"
proof (cases capRange)
  case None
  with assms have "sz = defaultVolumeSize" by (simp add: calculateVolumeSize_def)
  then show ?thesis by (simp add: sint_defaultVolumeSize)
next
  case (Some cr)
  show ?thesis
  proof (cases "0 < sint (RequiredBytes cr) \<or> 0 < sint (LimitBytes cr)")
    case False
    with assms Some have "sz = defaultVolumeSize" by (simp add: calculate_simps)
    then show ?thesis by (simp add: sint_defaultVolumeSize)
  next
    case True
    with assms Some show ?thesis
      by (auto simp: calculate_simps split: if_splits)
  qed
qed

lemma ControllerExpandVolume_OutOfRange:
  assumes "calculateVolumeSize capRange = Inl e" and "v \<noteq> ''''"
  shows "\<exists>m. fst (snd (ControllerExpandVolume p w
      \<lparr>Controller_VolumeId = v, Controller_CapacityRange = capRange\<rparr>))
        = Return (Inl (Status OutOfRange m))"
  using assms by (simp add: ControllerExpandVolume_def Let_def)

text \<open>
  \<^bold>\<open>C3.\<close> The capacity-range arithmetic of \<^verbatim>\<open>calculateVolumeSize\<close>, case by case, a field
  being set when its signed value is positive. No range, or neither field set, gives the
  default of 1 GiB. Both fields set with the limit below the required size is an error,
  and so is any set field below 1 GiB or above 200 GiB; the handlers report the error
  with the code \<open>OutOfRange\<close> (shown for \<^verbatim>\<open>ControllerExpandVolume\<close>). Otherwise: both
  set and equal gives that value, only the limit set gives the limit, only the required
  size set gives it, and both set and unequal (the required size below the limit, the other
  order being the error above) gives the limit.
\<close>

theorem calculateVolumeSize_capacity_arithmetic:
  "let r = sint (RequiredBytes cr); l = sint (LimitBytes cr);
       result = calculateVolumeSize (Some cr);
       isError = (\<exists>e. result = Inl e)
   in
     calculateVolumeSize None = Inr defaultVolumeSize \<and>
     sint defaultVolumeSize = 1073741824 \<and>
     (\<not> 0 < r \<and> \<not> 0 < l \<longrightarrow> result = Inr defaultVolumeSize) \<and>
     (0 < r \<and> 0 < l \<and> l < r \<longrightarrow> isError) \<and>
     ((0 < r \<and> r < 1073741824) \<or> (0 < l \<and> l < 1073741824) \<longrightarrow> isError) \<and>
     ((0 < r \<and> 214748364800 < r) \<or> (0 < l \<and> 214748364800 < l) \<longrightarrow> isError) \<and>
     (1073741824 \<le> r \<and> r \<le> 214748364800 \<and> l = r \<longrightarrow> result = Inr (RequiredBytes cr)) \<and>
     (\<not> 0 < r \<and> 1073741824 \<le> l \<and> l \<le> 214748364800 \<longrightarrow> result = Inr (LimitBytes cr)) \<and>
     (\<not> 0 < l \<and> 1073741824 \<le> r \<and> r \<le> 214748364800 \<longrightarrow> result = Inr (RequiredBytes cr)) \<and>
     (1073741824 \<le> r \<and> r < l \<and> l \<le> 214748364800 \<longrightarrow> result = Inr (LimitBytes cr)) \<and>
     (isError \<longrightarrow> (\<forall>p w v. v \<noteq> '''' \<longrightarrow>
        (\<exists>m. fst (snd (ControllerExpandVolume p w
           \<lparr>Controller_VolumeId = v, Controller_CapacityRange = Some cr\<rparr>))
             = Return (Inl (Status OutOfRange m)))))"
proof -
  define r where "r = sint (RequiredBytes cr)"
  define l where "l = sint (LimitBytes cr)"
  define result where "result = calculateVolumeSize (Some cr)"
  note defs = r_def l_def result_def
  have unset: "\<not> 0 < r \<and> \<not> 0 < l \<longrightarrow> result = Inr defaultVolumeSize"
    by (simp add: defs calculateVolumeSize_unset)
  have order: "0 < r \<and> 0 < l \<and> l < r \<longrightarrow> (\<exists>e. result = Inl e)"
    by (simp add: defs calculate_simps)
  have low: "(0 < r \<and> r < 1073741824) \<or> (0 < l \<and> l < 1073741824) \<longrightarrow> (\<exists>e. result = Inl e)"
    by (auto simp: defs calculate_simps)
  have high: "(0 < r \<and> 214748364800 < r) \<or> (0 < l \<and> 214748364800 < l) \<longrightarrow> (\<exists>e. result = Inl e)"
    by (auto simp: defs calculate_simps)
  have equal: "1073741824 \<le> r \<and> r \<le> 214748364800 \<and> l = r \<longrightarrow> result = Inr (RequiredBytes cr)"
  proof
    assume a: "1073741824 \<le> r \<and> r \<le> 214748364800 \<and> l = r"
    then have "sint (LimitBytes cr) = sint (RequiredBytes cr)"
      by (simp add: defs)
    then have "LimitBytes cr = RequiredBytes cr"
      by (rule signed_word_eqI)
    with a show "result = Inr (RequiredBytes cr)"
      by (simp add: defs calculate_simps)
  qed
  have only_limit: "\<not> 0 < r \<and> 1073741824 \<le> l \<and> l \<le> 214748364800 \<longrightarrow> result = Inr (LimitBytes cr)"
    by (auto simp: defs calculate_simps)
  have only_required: "\<not> 0 < l \<and> 1073741824 \<le> r \<and> r \<le> 214748364800 \<longrightarrow> result = Inr (RequiredBytes cr)"
    by (auto simp: defs calculate_simps)
  have unequal: "1073741824 \<le> r \<and> r < l \<and> l \<le> 214748364800 \<longrightarrow> result = Inr (LimitBytes cr)"
    by (auto simp: defs calculate_simps)
  have code: "(\<exists>e. result = Inl e) \<longrightarrow> (\<forall>p w v. v \<noteq> '''' \<longrightarrow>
        (\<exists>m. fst (snd (ControllerExpandVolume p w
           \<lparr>Controller_VolumeId = v, Controller_CapacityRange = Some cr\<rparr>))
             = Return (Inl (Status OutOfRange m))))"
    using ControllerExpandVolume_OutOfRange [of "Some cr"] by (auto simp: result_def)
  from unset order low high equal only_limit only_required unequal code
  show ?thesis
    unfolding Let_def defs
    by (simp only: calculateVolumeSize_nil sint_defaultVolumeSize simp_thms)
qed

theorem calculateVolumeSize_capacity_arithmetic_witness:
  "calculateVolumeSize (Some \<lparr>RequiredBytes = 0, LimitBytes = 0\<rparr>) = Inr defaultVolumeSize \<and>
   (\<exists>e. calculateVolumeSize (Some \<lparr>RequiredBytes = 2147483648, LimitBytes = 1073741824\<rparr>) = Inl e) \<and>
   (\<exists>e. calculateVolumeSize (Some \<lparr>RequiredBytes = 1024, LimitBytes = 0\<rparr>) = Inl e) \<and>
   (\<exists>e. calculateVolumeSize (Some \<lparr>RequiredBytes = 0, LimitBytes = 214748364801\<rparr>) = Inl e) \<and>
   calculateVolumeSize (Some \<lparr>RequiredBytes = 5368709120, LimitBytes = 5368709120\<rparr>) = Inr 5368709120 \<and>
   calculateVolumeSize (Some \<lparr>RequiredBytes = 0, LimitBytes = 2147483648\<rparr>) = Inr 2147483648 \<and>
   calculateVolumeSize (Some \<lparr>RequiredBytes = 5368709120, LimitBytes = 0\<rparr>) = Inr 5368709120 \<and>
   calculateVolumeSize (Some \<lparr>RequiredBytes = 5368709120, LimitBytes = 10737418240\<rparr>) = Inr 10737418240 \<and>
   (\<exists>m. fst (snd (ControllerExpandVolume examplePlugin Map.empty
      \<lparr>Controller_VolumeId = ''vol-a'',
       Controller_CapacityRange = Some \<lparr>RequiredBytes = 1024, LimitBytes = 0\<rparr>\<rparr>))
        = Return (Inl (Status OutOfRange m)))"
  using calculateVolumeSize_capacity_arithmetic [of "\<lparr>RequiredBytes = 0, LimitBytes = 0\<rparr>"]
    calculateVolumeSize_capacity_arithmetic [of "\<lparr>RequiredBytes = 2147483648, LimitBytes = 1073741824\<rparr>"]
    calculateVolumeSize_capacity_arithmetic [of "\<lparr>RequiredBytes = 1024, LimitBytes = 0\<rparr>"]
    calculateVolumeSize_capacity_arithmetic [of "\<lparr>RequiredBytes = 0, LimitBytes = 214748364801\<rparr>"]
    calculateVolumeSize_capacity_arithmetic [of "\<lparr>RequiredBytes = 5368709120, LimitBytes = 5368709120\<rparr>"]
    calculateVolumeSize_capacity_arithmetic [of "\<lparr>RequiredBytes = 0, LimitBytes = 2147483648\<rparr>"]
    calculateVolumeSize_capacity_arithmetic [of "\<lparr>RequiredBytes = 5368709120, LimitBytes = 0\<rparr>"]
    calculateVolumeSize_capacity_arithmetic [of "\<lparr>RequiredBytes = 5368709120, LimitBytes = 10737418240\<rparr>"]
  unfolding Let_def
  by simp

text \<open>
  \<^bold>\<open>C9.\<close> Whenever \<^verbatim>\<open>calculateVolumeSize\<close> returns without error, the size it returns lies
  between \<^verbatim>\<open>minimumVolumeSize\<close> (1073741824 bytes) and \<^verbatim>\<open>maximumVolumeSize\<close>
  (214748364800 bytes) inclusive; for a nil range and for a range with neither field set
  it returns exactly \<^verbatim>\<open>defaultVolumeSize\<close>, which equals the minimum.
\<close>

theorem calculateVolumeSize_within_bounds:
  "(calculateVolumeSize capRange = Inr sz \<longrightarrow>
      sint minimumVolumeSize \<le> sint sz \<and> sint sz \<le> sint maximumVolumeSize) \<and>
   sint minimumVolumeSize = 1073741824 \<and> sint maximumVolumeSize = 214748364800 \<and>
   calculateVolumeSize None = Inr defaultVolumeSize \<and>
   (\<not> 0 < sint (RequiredBytes cr) \<and> \<not> 0 < sint (LimitBytes cr) \<longrightarrow>
      calculateVolumeSize (Some cr) = Inr defaultVolumeSize) \<and>
   defaultVolumeSize = minimumVolumeSize"
proof -
  have "defaultVolumeSize = minimumVolumeSize"
    by (simp add: defaultVolumeSize_def minimumVolumeSize_def)
  then show ?thesis
    using calculateVolumeSize_bounds [of capRange sz] calculateVolumeSize_unset [of cr]
    by (simp add: sint_minimumVolumeSize sint_maximumVolumeSize calculateVolumeSize_nil)
qed

theorem calculateVolumeSize_within_bounds_witness:
  "calculateVolumeSize (Some \<lparr>RequiredBytes = 5368709120, LimitBytes = 10737418240\<rparr>) = Inr 10737418240 \<and>
   sint minimumVolumeSize \<le> sint (10737418240 :: int64) \<and>
   sint (10737418240 :: int64) \<le> sint maximumVolumeSize \<and>
   calculateVolumeSize (Some \<lparr>RequiredBytes = 0, LimitBytes = - 5\<rparr>) = Inr defaultVolumeSize"
  using calculateVolumeSize_within_bounds
    [of "Some \<lparr>RequiredBytes = 5368709120, LimitBytes = 10737418240\<rparr>" 10737418240
        "\<lparr>RequiredBytes = 0, LimitBytes = - 5\<rparr>"]
  by (simp add: calculate_simps)

section \<open>The image controller: create, delete, expand\<close>

text \<open>Reading the output of \<^verbatim>\<open>stat\<close> back: the decimal digits of the length are no
  white space and no sign, and they parse to the length.\<close>

lemma digit_cases:
  assumes "k < 10"
  shows "k = 0 \<or> k = 1 \<or> k = 2 \<or> k = 3 \<or> k = 4 \<or> k = 5 \<or> k = 6 \<or> k = 7 \<or> k = 8 \<or> k = (9::nat)"
  using assms by arith

lemma digit_isDigit: "k < 10 \<Longrightarrow> isDigit (digit k)"
  using digit_cases [of k] by (auto simp: isDigit_def digit_def)

lemma digitValue_digit: "k < 10 \<Longrightarrow> digitValue (digit k) = k"
  using digit_cases [of k] by (auto simp: digitValue_def digit_def)

lemma FormatUint_digits: "FormatUint n \<noteq> [] \<and> list_all isDigit (FormatUint n)"
proof (induction n rule: FormatUint.induct)
  case (1 n)
  show ?case
  proof (cases "n < 10")
    case True
    then show ?thesis by (simp add: FormatUint.simps [of n] digit_isDigit)
  next
    case False
    with 1 show ?thesis by (simp add: FormatUint.simps [of n] digit_isDigit)
  qed
qed

lemma foldl_FormatUint: "foldl (\<lambda>n c. n * 10 + digitValue c) 0 (FormatUint n) = n"
proof (induction n rule: FormatUint.induct)
  case (1 n)
  show ?case
  proof (cases "n < 10")
    case True
    then show ?thesis by (simp add: FormatUint.simps [of n] digitValue_digit)
  next
    case False
    with 1 show ?thesis by (simp add: FormatUint.simps [of n] digitValue_digit)
  qed
qed

lemma ParseUint_FormatUint: "ParseUint (FormatUint n) = Some n"
  using FormatUint_digits [of n] by (simp add: ParseUint_def foldl_FormatUint)

lemma spaceRunes_first:
  "p \<in> set spaceRunes \<Longrightarrow> p \<noteq> [] \<and> \<not> isDigit (hd p)"
  by (auto simp: spaceRunes_def isDigit_def)

lemma spaceRunes_last:
  "p \<in> set (map rev spaceRunes) \<Longrightarrow> p \<noteq> [] \<and> \<not> isDigit (hd p)"
  by (auto simp: spaceRunes_def isDigit_def)

lemma leadLen_no_space:
  assumes "\<forall>p \<in> set encs. p \<noteq> [] \<and> \<not> isDigit (hd p)" and "isDigit c"
  shows "leadLen encs (c # cs) = 0"
proof -
  have "\<not> (p \<noteq> [] \<and> take (length p) (c # cs) = p)" if "p \<in> set encs" for p
  proof
    assume match: "p \<noteq> [] \<and> take (length p) (c # cs) = p"
    then obtain x xs where p: "p = x # xs" by (cases p) auto
    with match have "x = c" by simp
    with p assms that show False by auto
  qed
  then have "find (\<lambda>p. p \<noteq> [] \<and> take (length p) (c # cs) = p) encs = None"
    by (simp add: find_None_iff)
  then show ?thesis by (simp add: leadLen_def)
qed

lemma leadLen_digit: "isDigit c \<Longrightarrow> leadLen spaceRunes (c # cs) = 0"
  using spaceRunes_first by (intro leadLen_no_space) auto

lemma leadLen_rev_digit: "isDigit c \<Longrightarrow> leadLen (map rev spaceRunes) (c # cs) = 0"
  using spaceRunes_last by (intro leadLen_no_space) auto

lemma leadLen_rev_newline: "leadLen (map rev spaceRunes) (CHR 0x0A # cs) = 1"
  by (simp add: leadLen_def spaceRunes_def)

lemma TrimSpace_statOutput: "TrimSpace (statOutput n) = FormatUint n"
proof -
  obtain c cs where first: "FormatUint n = c # cs" and "isDigit c"
    using FormatUint_digits [of n] by (cases "FormatUint n") auto
  then have lead: "trimLead spaceRunes (statOutput n) = statOutput n"
    by (simp add: trimLead.simps [of spaceRunes] statOutput_def leadLen_digit)
  obtain d ds where last: "rev (FormatUint n) = d # ds" and "isDigit d"
    using FormatUint_digits [of n] by (cases "rev (FormatUint n)") (auto simp: list_all_iff)
  then have "trimLead (map rev spaceRunes) (rev (statOutput n)) = rev (FormatUint n)"
    by (simp add: trimLead.simps [of "map rev spaceRunes"] statOutput_def
        leadLen_rev_newline leadLen_rev_digit)
  with lead show ?thesis by (simp add: TrimSpace_def)
qed

lemma ParseInt_statOutput:
  "ParseInt (TrimSpace (statOutput n)) =
     (if n < 2 ^ 63 then Inr (of_nat n)
      else Inl (''strconv.ParseInt: parsing \"'' @ FormatUint n @ ''\": value out of range''))"
proof -
  obtain c cs where first: "FormatUint n = c # cs" and digit: "isDigit c"
    using FormatUint_digits [of n] by (cases "FormatUint n") auto
  from digit have "c \<noteq> CHR ''+''" and "c \<noteq> CHR ''-''"
    by (auto simp: isDigit_def)
  with first ParseUint_FormatUint [of n] show ?thesis
    by (simp add: TrimSpace_statOutput ParseInt_def Quote_def Let_def)
qed

lemma examplePath: "getImageFullPath exampleController ''vol-a'' = ''/data/vol-a.img''"
  by (simp add: getImageFullPath_def TrimSuffix_def exampleController_def)

lemma Create_never_AlreadyExists:
  "fst (Create s h w volumeId sizeBytes) \<noteq> Return (Some ErrorVolumeAlreadyExists)"
  by (auto simp: Create_def Let_def split: prod.splits option.splits go.splits bool.splits)

lemma Delete_never_NotFound:
  "fst (Delete s h w volumeId) \<noteq> Return (Some ErrorVolumeNotFound)"
  by (auto simp: Delete_def checkExecutable_def Let_def
      split: prod.splits option.splits look_result.splits go.splits bool.splits)

lemma CreateVolume_log:
  "(InfoLevel, ''Volume already exists'') \<notin> set (fst (CreateVolume p h w request))"
proof -
  have "Create (volumeController p) h w (Name request) sz
      \<noteq> (Return (Some ErrorVolumeAlreadyExists), w')" for sz w'
    using Create_never_AlreadyExists [of "volumeController p" h w "Name request" sz] by auto
  then show ?thesis
    by (auto simp: CreateVolume_def Let_def
        split: go.splits option.splits list.splits sum.splits prod.splits)
qed

lemma DeleteVolume_log:
  "(InfoLevel, ''Assuming volume is already deleted because it does not exist'')
     \<notin> set (fst (DeleteVolume p h w request))"
proof -
  have "Delete (volumeController p) h w (Delete_VolumeId request)
      \<noteq> (Return (Some ErrorVolumeNotFound), w')" for w'
    using Delete_never_NotFound [of "volumeController p" h w "Delete_VolumeId request"] by auto
  then show ?thesis
    by (auto simp: DeleteVolume_def Let_def split: option.splits prod.splits go.splits)
qed

text \<open>
  \<^bold>\<open>C10.\<close> \<^verbatim>\<open>SparseFileVolumeController.Create\<close> never returns
  \<^verbatim>\<open>ErrorVolumeAlreadyExists\<close> and \<^verbatim>\<open>SparseFileVolumeController.Delete\<close> never returns
  \<^verbatim>\<open>ErrorVolumeNotFound\<close>. So, with this controller, \<^verbatim>\<open>CreateVolume\<close> never takes the
  branch that logs "Volume already exists", and \<^verbatim>\<open>DeleteVolume\<close> never takes the branch
  that logs "Assuming volume is already deleted because it does not exist".
\<close>

theorem sentinel_fallbacks_unreachable:
  "fst (Create s h w volumeId sizeBytes) \<noteq> Return (Some ErrorVolumeAlreadyExists) \<and>
   fst (Delete s h w volumeId) \<noteq> Return (Some ErrorVolumeNotFound) \<and>
   (InfoLevel, ''Volume already exists'') \<notin> set (fst (CreateVolume p h w createRequest)) \<and>
   (InfoLevel, ''Assuming volume is already deleted because it does not exist'')
     \<notin> set (fst (DeleteVolume p h w deleteRequest))"
  by (simp only: Create_never_AlreadyExists Delete_never_NotFound CreateVolume_log DeleteVolume_log
      not_False_eq_True simp_thms)

theorem sentinel_fallbacks_unreachable_witness:
  "Create exampleController (hostWithFree 262144)
      [''/data/vol-a.img'' \<mapsto> Regular 1073741824 []] ''vol-a'' 1073741824
     = (Return None, [''/data/vol-a.img'' \<mapsto> Regular 1073741824 []]) \<and>
   Delete exampleController (hostWithFree 262144) Map.empty ''vol-a'' = (Return None, Map.empty) \<and>
   fst (CreateVolume examplePlugin (hostWithFree 262144)
      [''/data/vol-a.img'' \<mapsto> Regular 1073741824 []] (createVolA ''n1''))
     = [(DebugLevel, ''CreateVolume called''), (InfoLevel, ''Volume was created'')] \<and>
   fst (DeleteVolume examplePlugin (hostWithFree 262144) Map.empty \<lparr>Delete_VolumeId = ''vol-a''\<rparr>)
     = [(DebugLevel, ''DeleteVolume called''), (InfoLevel, ''Volume was deleted'')]"
proof -
  have create: "Create exampleController (hostWithFree 262144)
      [''/data/vol-a.img'' \<mapsto> Regular 1073741824 []] ''vol-a'' 1073741824
     = (Return None, [''/data/vol-a.img'' \<mapsto> Regular 1073741824 []])"
    by (simp add: Create_def examplePath isFileExists_def)
  have delete: "Delete exampleController (hostWithFree 262144) Map.empty ''vol-a''
     = (Return None, Map.empty)"
    by (simp add: Delete_def examplePath isFileExists_def)
  have createVolume: "fst (CreateVolume examplePlugin (hostWithFree 262144)
      [''/data/vol-a.img'' \<mapsto> Regular 1073741824 []] (createVolA ''n1''))
     = [(DebugLevel, ''CreateVolume called''), (InfoLevel, ''Volume was created'')]"
    by (simp add: CreateVolume_def createVolA_def mountCapability_def examplePlugin_def
        calculateVolumeSize_def defaultVolumeSize_def Gb_def create)
  have deleteVolume: "fst (DeleteVolume examplePlugin (hostWithFree 262144) Map.empty
      \<lparr>Delete_VolumeId = ''vol-a''\<rparr>)
     = [(DebugLevel, ''DeleteVolume called''), (InfoLevel, ''Volume was deleted'')]"
    by (simp add: DeleteVolume_def examplePlugin_def delete)
  from create delete createVolume deleteVolume
    sentinel_fallbacks_unreachable [of exampleController "hostWithFree 262144"
      "[''/data/vol-a.img'' \<mapsto> Regular 1073741824 []]" "''vol-a''" 1073741824
      examplePlugin "createVolA ''n1''" "\<lparr>Delete_VolumeId = ''vol-a''\<rparr>"]
  show ?thesis by simp
qed

text \<open>
  \<^bold>\<open>C4.\<close> \<^verbatim>\<open>ExpandVolumeSize\<close> compares the grow-delta with the pool's free bytes before
  it looks at the delta's sign. With a new size equal to the current length of the image
  and a pool that has no free bytes, the delta 0 is not below the 0 bytes available: the
  call fails and leaves the image as it was.
\<close>

theorem ExpandVolumeSize_same_size_full_pool:
  assumes "volumeId \<noteq> ''''"
    and "w (getImageFullPath s volumeId) = Some (Regular n d)"
    and "0 < n" and "n < 2 ^ 63"
    and "LookPath h ''stat'' = Found"
    and "cmdError h ''stat'' [''-c'', ''%s'', getImageFullPath s volumeId] = None"
    and "Statfs h (imagesDir s) = Inr fs" and "Bfree fs * Bsize fs = 0"
  shows "ExpandVolumeSize s h w volumeId (of_nat n)
     = (Return (Some (Errorf
          ''addiditional space (0) is not available. 0 bytes is available on storage'')), w)"
proof -
  have "sint (of_nat n :: int64) = int n"
    using assms(4) by (simp add: signed_of_nat signed_take_bit_int_eq_self)
  with assms show ?thesis
    by (simp add: ExpandVolumeSize_def GetVolumeSize_def GetCapacity_def isFileExists_def
      fileSize_def ParseInt_statOutput checkExecutable_def Let_def
      FormatInt_def FormatUint.simps digit_def)
qed

theorem ExpandVolumeSize_same_size_full_pool_witness:
  "ExpandVolumeSize exampleController (hostWithFree 0)
      [''/data/vol-a.img'' \<mapsto> Regular 1073741824 []] ''vol-a'' 1073741824
    = (Return (Some (Errorf
         ''addiditional space (0) is not available. 0 bytes is available on storage'')),
       [''/data/vol-a.img'' \<mapsto> Regular 1073741824 []])"
  using ExpandVolumeSize_same_size_full_pool
    [of "''vol-a''" "[''/data/vol-a.img'' \<mapsto> Regular 1073741824 []]"
        exampleController 1073741824 "[]" "hostWithFree 0"]
  by (simp add: examplePath hostWithFree_def)

lemma sint_of_nat_size: "n < 2 ^ 63 \<Longrightarrow> sint (of_nat n :: int64) = int n"
  by (simp add: signed_of_nat signed_take_bit_int_eq_self)

text \<open>The subtraction \<^verbatim>\<open>newSizeBytes - currentSize\<close> does not wrap: the new size is
  positive and the current size is the length of a file.\<close>

lemma sint_grow_delta:
  assumes "0 < sint (a :: int64)" and "n < 2 ^ 63"
  shows "sint (a - of_nat n) = sint a - int n"
proof -
  have "sint a < 2 ^ 63" using sint_lt [of a] by simp
  with assms have "- (2 ^ 63) \<le> sint a - int n" and "sint a - int n < 2 ^ 63"
    by simp_all
  then have "signed_take_bit 63 (sint a - int n) = sint a - int n"
    by (rule signed_take_bit_int_eq_self)
  then show ?thesis
    using assms(2) by (simp add: sint_word_diff sint_of_nat_size)
qed

lemma GetVolumeSize_Inr:
  assumes "GetVolumeSize s h w volumeId = Return (Inr c)"
  shows "\<exists>n d. w (getImageFullPath s volumeId) = Some (Regular n d) \<and> n < 2 ^ 63 \<and> c = of_nat n"
  using assms
  by (auto simp: GetVolumeSize_def Let_def fileSize_def ParseInt_statOutput isFileExists_def
      split: if_splits option.splits node.splits sum.splits go.splits bool.splits)

lemma truncate_world:
  "snd (truncate h w filename sizeBytes) = w \<or>
   truncateFile w filename (sint sizeBytes) = Some (snd (truncate h w filename sizeBytes))"
  by (auto simp: truncate_def runTruncate_def Let_def split: option.splits prod.splits)

text \<open>What one call of \<^verbatim>\<open>ExpandVolumeSize\<close> does to the file system: nothing, or it sets
  the length of the volume's image to a new size that is larger than the length was.\<close>

lemma ExpandVolumeSize_world:
  "snd (ExpandVolumeSize s h w volumeId newSizeBytes) = w \<or>
   (\<exists>n d. w (getImageFullPath s volumeId) = Some (Regular n d) \<and> int n < sint newSizeBytes \<and>
      snd (ExpandVolumeSize s h w volumeId newSizeBytes)
        = w(getImageFullPath s volumeId \<mapsto>
            Regular (nat (sint newSizeBytes)) (take (nat (sint newSizeBytes)) d)))"
proof (cases "snd (ExpandVolumeSize s h w volumeId newSizeBytes) = w")
  case True
  then show ?thesis by simp
next
  case False
  let ?f = "getImageFullPath s volumeId"
  from False obtain c where cur: "GetVolumeSize s h w volumeId = Return (Inr c)"
    and pos: "0 < sint newSizeBytes" and delta: "0 < sint (newSizeBytes - c)"
    and world: "snd (ExpandVolumeSize s h w volumeId newSizeBytes)
                  = snd (truncate h w ?f newSizeBytes)"
    by (auto simp: ExpandVolumeSize_def Let_def
        split: if_splits sum.splits prod.splits option.splits go.splits bool.splits)
  from GetVolumeSize_Inr [OF cur] obtain n d
    where img: "w ?f = Some (Regular n d)" and n: "n < 2 ^ 63" and c: "c = of_nat n"
    by blast
  from delta pos n c have grow: "int n < sint newSizeBytes"
    by (simp add: sint_grow_delta)
  from False world truncate_world [of h w ?f newSizeBytes]
  have "truncateFile w ?f (sint newSizeBytes)
          = Some (snd (ExpandVolumeSize s h w volumeId newSizeBytes))"
    by auto
  with img pos have "snd (ExpandVolumeSize s h w volumeId newSizeBytes)
      = w(?f \<mapsto> Regular (nat (sint newSizeBytes)) (take (nat (sint newSizeBytes)) d))"
    by (auto simp: truncateFile_def Let_def)
  with img grow show ?thesis by blast
qed

lemma ExpandVolumeSize_fileSize:
  assumes "fileSize w f = Some n"
  shows "\<exists>n'. fileSize (snd (ExpandVolumeSize s h w volumeId newSizeBytes)) f = Some n' \<and> n \<le> n'"
  using ExpandVolumeSize_world [of s h w volumeId newSizeBytes] assms
  by (auto simp: fileSize_def split: option.splits node.splits if_splits)

lemma expandCalls_append:
  "expandCalls s (xs @ ys) w = expandCalls s ys (expandCalls s xs w)"
  by (induction xs arbitrary: w) auto

lemma expandCalls_fileSize:
  "fileSize w f = Some n \<Longrightarrow> \<exists>n'. fileSize (expandCalls s calls w) f = Some n' \<and> n \<le> n'"
proof (induction calls arbitrary: w n)
  case Nil
  then show ?case by simp
next
  case (Cons call calls)
  obtain h volumeId newSizeBytes where call: "call = (h, volumeId, newSizeBytes)"
    by (cases call) auto
  from ExpandVolumeSize_fileSize [OF Cons.prems, of s h volumeId newSizeBytes]
  obtain m where m: "fileSize (snd (ExpandVolumeSize s h w volumeId newSizeBytes)) f = Some m"
    and "n \<le> m" by blast
  from Cons.IH [OF m] obtain n' where
    "fileSize (expandCalls s calls (snd (ExpandVolumeSize s h w volumeId newSizeBytes))) f = Some n'"
    and "m \<le> n'" by blast
  with \<open>n \<le> m\<close> call show ?case by auto
qed

text \<open>
  \<^bold>\<open>C5.\<close> Size monotonicity (I4). Take any sequence of \<^verbatim>\<open>ExpandVolumeSize\<close> calls, with
  any volume ids, any new sizes and any answers of the host (so calls may succeed or fail),
  and any image file: whatever length the image has at some point of the sequence, its
  length after any further calls is at least that. In particular the image stays present.
\<close>

theorem expand_never_decreases:
  assumes "fileSize (expandCalls s before w) f = Some n"
  shows "\<exists>n'. fileSize (expandCalls s (before @ after) w) f = Some n' \<and> n \<le> n'"
  using expandCalls_fileSize [OF assms, of s after] by (simp add: expandCalls_append)

theorem expand_never_decreases_witness:
  "fileSize (expandCalls exampleController
      [(hostWithFree 2621440, ''vol-a'', 5368709120)]
      [''/data/vol-a.img'' \<mapsto> Regular 1073741824 []]) ''/data/vol-a.img'' = Some 5368709120 \<and>
   (\<exists>n'. fileSize (expandCalls exampleController
      ([(hostWithFree 2621440, ''vol-a'', 5368709120)]
        @ [(hostWithFree 2621440, ''vol-a'', 2147483648),
           (hostWithFree 262144, ''vol-a'', 214748364800)])
      [''/data/vol-a.img'' \<mapsto> Regular 1073741824 []]) ''/data/vol-a.img'' = Some n' \<and>
      5368709120 \<le> n')"
proof -
  have grown: "fileSize (expandCalls exampleController
      [(hostWithFree 2621440, ''vol-a'', 5368709120)]
      [''/data/vol-a.img'' \<mapsto> Regular 1073741824 []]) ''/data/vol-a.img'' = Some 5368709120"
    by (simp add: ExpandVolumeSize_def GetVolumeSize_def GetCapacity_def examplePath
        isFileExists_def fileSize_def ParseInt_statOutput checkExecutable_def hostWithFree_def
        truncate_def runTruncate_def truncateFile_def Let_def)
  from grown expand_never_decreases [OF grown] show ?thesis by blast
qed

section \<open>Expansion on the node\<close>

text \<open>
  \<^bold>\<open>C2.\<close> When the grow-delta of an expansion is at least the pool's free bytes,
  \<^verbatim>\<open>ExpandVolumeSize\<close> fails with an error made by \<^verbatim>\<open>fmt.Errorf\<close>, which
  \<^verbatim>\<open>NodeExpandVolume\<close> reports with the code \<open>Internal\<close> (it gives \<open>NotFound\<close> to
  \<^verbatim>\<open>ErrorVolumeNotFound\<close> and \<open>Internal\<close> to every other error; no handler uses
  \<open>ResourceExhausted\<close>). The failed call leaves the file system, and so the length of the
  image, unchanged. The request is one that reaches the expansion: an id, a mount
  capability and a valid capacity range, for a volume whose image exists and whose length
  \<^verbatim>\<open>stat\<close> reports.
\<close>

theorem NodeExpandVolume_no_space:
  assumes "Node_VolumeId request \<noteq> ''''"
    and "Node_VolumeCapability request = Some capability"
    and "AccessType capability = Some (VolumeCapability_Mount m)"
    and "calculateVolumeSize (Node_CapacityRange request) = Inr sz"
    and "w (getImageFullPath (volumeController p) (Node_VolumeId request)) = Some (Regular n d)"
    and "n < 2 ^ 63"
    and "LookPath h ''stat'' = Found"
    and "cmdError h ''stat''
           [''-c'', ''%s'', getImageFullPath (volumeController p) (Node_VolumeId request)] = None"
    and "Statfs h (imagesDir (volumeController p)) = Inr fs"
    and "sint (Bfree fs * Bsize fs) \<le> sint sz - int n"
  shows "NodeExpandVolume p h w request =
     ([(DebugLevel, ''NodeExpandVolume called'')],
      Return (Inl (Status Internal (''NodeExpandVolume ('' @ Node_VolumeId request
        @ '') error expand volume size: addiditional space ('' @ FormatInt (sint sz - int n)
        @ '') is not available. '' @ FormatInt (sint (Bfree fs * Bsize fs))
        @ '' bytes is available on storage''))),
      w)"
proof -
  from calculateVolumeSize_bounds [OF assms(4)] have pos: "0 < sint sz" by simp
  from pos assms(6) have delta: "sint (sz - of_nat n) = sint sz - int n"
    by (rule sint_grow_delta)
  from pos have "\<not> sint sz \<le> 0" by simp
  with assms delta have "ExpandVolumeSize (volumeController p) h w (Node_VolumeId request) sz =
     (Return (Some (Errorf (''addiditional space ('' @ FormatInt (sint sz - int n)
        @ '') is not available. '' @ FormatInt (sint (Bfree fs * Bsize fs))
        @ '' bytes is available on storage''))), w)"
    by (simp add: ExpandVolumeSize_def GetVolumeSize_def GetCapacity_def isFileExists_def
        fileSize_def ParseInt_statOutput checkExecutable_def Let_def)
  with assms(1-4) show ?thesis
    by (simp add: NodeExpandVolume_def Let_def)
qed

lemma calculateVolumeSize_200GiB:
  "calculateVolumeSize (Some \<lparr>RequiredBytes = 214748364800, LimitBytes = 0\<rparr>) = Inr 214748364800"
  by (simp add: calculate_simps)

theorem NodeExpandVolume_no_space_witness:
  "NodeExpandVolume examplePlugin (hostWithFree 262144)
     [''/data/vol-a.img'' \<mapsto> Regular 1073741824 []] (expandVolA 214748364800) =
     ([(DebugLevel, ''NodeExpandVolume called'')],
      Return (Inl (Status Internal ''NodeExpandVolume (vol-a) error expand volume size: addiditional space (213674622976) is not available. 1073741824 bytes is available on storage'')),
      [''/data/vol-a.img'' \<mapsto> Regular 1073741824 []])"
  using NodeExpandVolume_no_space
    [of "expandVolA 214748364800" mountCapability "\<lparr>Mount_FsType = '''', MountFlags = []\<rparr>"
        214748364800 "[''/data/vol-a.img'' \<mapsto> Regular 1073741824 []]" examplePlugin
        1073741824 "[]" "hostWithFree 262144"]
  by (simp add: expandVolA_def mountCapability_def examplePlugin_def examplePath
      hostWithFree_def calculateVolumeSize_200GiB FormatInt_def FormatUint.simps digit_def)

theorem NodeExpandVolume_no_space_counterexample:
  "fst (snd (NodeExpandVolume examplePlugin (hostWithFree 262144)
     [''/data/vol-a.img'' \<mapsto> Regular 1073741824 []] (expandVolA 214748364800))) =
     Return (Inl (Status Internal ''NodeExpandVolume (vol-a) error expand volume size: addiditional space (213674622976) is not available. 1073741824 bytes is available on storage''))"
  by (simp add: NodeExpandVolume_def expandVolA_def mountCapability_def examplePlugin_def
      calculateVolumeSize_200GiB ExpandVolumeSize_def GetVolumeSize_def GetCapacity_def
      examplePath isFileExists_def fileSize_def ParseInt_statOutput checkExecutable_def
      hostWithFree_def Let_def FormatInt_def FormatUint.simps digit_def)

section \<open>Creating a volume\<close>

lemma Create_existing:
  assumes "volumeId \<noteq> ''''" and "sizeBytes \<noteq> 0"
    and "isFileExists w (getImageFullPath s volumeId) = Return True"
  shows "Create s h w volumeId sizeBytes = (Return None, w)"
  using assms by (simp add: Create_def Let_def)

lemma truncateFile_exists:
  "truncateFile w filename sz = Some w' \<Longrightarrow> isFileExists w' filename = Return True"
  by (auto simp: truncateFile_def isFileExists_def Let_def split: option.splits node.splits)

lemma Create_success_exists:
  assumes "Create s h w volumeId sizeBytes = (Return None, w')"
  shows "isFileExists w' (getImageFullPath s volumeId) = Return True"
proof (cases "isFileExists w (getImageFullPath s volumeId) = Return True")
  case True
  with assms show ?thesis
    by (auto simp: Create_def Let_def split: if_splits)
next
  case False
  with assms have "truncate h w (getImageFullPath s volumeId) sizeBytes = (None, w')"
    by (auto simp: Create_def Let_def
        split: if_splits prod.splits option.splits go.splits bool.splits)
  then have "truncateFile w (getImageFullPath s volumeId) (sint sizeBytes) = Some w'"
    by (auto simp: truncate_def runTruncate_def Let_def split: option.splits prod.splits)
  then show ?thesis by (rule truncateFile_exists)
qed

text \<open>On an absent image, \<^verbatim>\<open>Create\<close> succeeds exactly when \<^verbatim>\<open>truncate\<close> is found and
  exits with status 0; it fails without a trace otherwise.\<close>

lemma Create_absent_runs:
  assumes "volumeId \<noteq> ''''" and "sizeBytes \<noteq> 0"
    and "w (getImageFullPath s volumeId) = None"
    and "LookPath h ''truncate'' = Found"
    and "cmdError h ''truncate''
           [''-s'', FormatInt (sint sizeBytes), getImageFullPath s volumeId] = None"
  shows "Create s h w volumeId sizeBytes =
     (Return None, w(getImageFullPath s volumeId \<mapsto>
        Regular (if 0 \<le> sint sizeBytes then nat (sint sizeBytes) else 0) []))"
  using assms
  by (simp add: Create_def isFileExists_def truncate_def checkExecutable_def
      runTruncate_def truncateFile_def Let_def)

lemma Create_absent_fails:
  assumes "volumeId \<noteq> ''''" and "sizeBytes \<noteq> 0"
    and "w (getImageFullPath s volumeId) = None"
    and "LookPath h ''truncate'' \<noteq> Found \<or>
         cmdError h ''truncate''
           [''-s'', FormatInt (sint sizeBytes), getImageFullPath s volumeId] \<noteq> None"
  shows "\<exists>e. Create s h w volumeId sizeBytes = (Return (Some e), w)"
  using assms
  by (auto simp: Create_def isFileExists_def truncate_def checkExecutable_def
      runTruncate_def Let_def split: look_result.splits option.splits)

lemma checkCapabilities_supported:
  "list_all mountSingleWriter caps \<Longrightarrow> checkCapabilities volumeId caps = Return None"
  by (induction caps)
    (auto simp: mountSingleWriter_def split: option.splits AccessType.splits)

text \<open>What a successful \<^verbatim>\<open>CreateVolume\<close> has passed.\<close>

lemma CreateVolume_success:
  assumes "CreateVolume p h w request = (lg, Return (Inr response), w')"
  shows "\<exists>requirements topology others nodeName sz.
     Name request \<noteq> '''' \<and> VolumeCapabilities request \<noteq> [] \<and>
     checkCapabilities (Name request) (VolumeCapabilities request) = Return None \<and>
     AccessibilityRequirements request = Some requirements \<and>
     Preferred requirements = topology # others \<and>
     Segments topology (nodeNameTopologyKey p) = Some nodeName \<and>
     calculateVolumeSize (CapacityRange request) = Inr sz \<and>
     Create (volumeController p) h w (Name request) sz = (Return None, w') \<and>
     response = \<lparr>Volume = \<lparr>CapacityBytes = sz, VolumeId = Name request,
       AccessibleTopology = [\<lparr>Segments = [nodeNameTopologyKey p \<mapsto> nodeName]\<rparr>]\<rparr>\<rparr>"
proof -
  have "Create (volumeController p) h w (Name request) sz
      \<noteq> (Return (Some ErrorVolumeAlreadyExists), w1)" for sz w1
    using Create_never_AlreadyExists [of "volumeController p" h w "Name request" sz] by auto
  with assms show ?thesis
    by (auto simp: CreateVolume_def Let_def
        split: if_splits go.splits option.splits list.splits sum.splits prod.splits)
qed

text \<open>What \<^verbatim>\<open>CreateVolume\<close> returns for an accepted request, given what \<^verbatim>\<open>Create\<close>
  returns.\<close>

lemma CreateVolume_accepted:
  assumes "acceptedRequest p request"
    and "calculateVolumeSize (CapacityRange request) = Inr sz"
    and "Create (volumeController p) h w (Name request) sz = (Return None, w')"
  shows "\<exists>response. CreateVolume p h w request =
     ([(DebugLevel, ''CreateVolume called''), (InfoLevel, ''Volume was created'')],
      Return (Inr response), w') \<and>
     CapacityBytes (Volume response) = sz \<and> VolumeId (Volume response) = Name request"
proof -
  from assms(1) obtain requirements topology others nodeName where
    "Name request \<noteq> ''''" "VolumeCapabilities request \<noteq> []"
    "list_all mountSingleWriter (VolumeCapabilities request)"
    "AccessibilityRequirements request = Some requirements"
    "Preferred requirements = topology # others"
    "Segments topology (nodeNameTopologyKey p) = Some nodeName"
    by (auto simp: acceptedRequest_def split: option.splits list.splits)
  with assms(2,3) checkCapabilities_supported [of "VolumeCapabilities request" "Name request"]
  show ?thesis
    by (simp add: CreateVolume_def Let_def)
qed

lemma CreateVolume_repeat:
  assumes "CreateVolume p h w request = (lg, Return (Inr response), w')"
  shows "CreateVolume p h' w' request =
     ([(DebugLevel, ''CreateVolume called''), (InfoLevel, ''Volume was created'')],
      Return (Inr response), w')"
proof -
  from CreateVolume_success [OF assms] obtain requirements topology others nodeName sz where
    name: "Name request \<noteq> ''''" and caps: "VolumeCapabilities request \<noteq> []"
    and checked: "checkCapabilities (Name request) (VolumeCapabilities request) = Return None"
    and req: "AccessibilityRequirements request = Some requirements"
    and pref: "Preferred requirements = topology # others"
    and key: "Segments topology (nodeNameTopologyKey p) = Some nodeName"
    and sz: "calculateVolumeSize (CapacityRange request) = Inr sz"
    and created: "Create (volumeController p) h w (Name request) sz = (Return None, w')"
    and response: "response = \<lparr>Volume = \<lparr>CapacityBytes = sz, VolumeId = Name request,
       AccessibleTopology = [\<lparr>Segments = [nodeNameTopologyKey p \<mapsto> nodeName]\<rparr>]\<rparr>\<rparr>"
    by blast
  from calculateVolumeSize_bounds [OF sz] have "sz \<noteq> 0" by auto
  with name Create_success_exists [OF created]
  have "Create (volumeController p) h' w' (Name request) sz = (Return None, w')"
    by (simp add: Create_existing)
  with name caps checked req pref key sz response show ?thesis
    by (simp add: CreateVolume_def Let_def)
qed

lemma createCalls_repeat:
  assumes "CreateVolume p h w request = (lg, Return (Inr response), w')"
  shows "createCalls p request hs w' = (replicate (length hs) (Return (Inr response)), w')"
  by (induction hs) (simp_all add: CreateVolume_repeat [OF assms])

text \<open>
  \<^bold>\<open>C7.\<close> \<^verbatim>\<open>Create\<close> is idempotent. For an id and a size of its domain (the id not
  empty, the size positive): if the image file already exists, \<^verbatim>\<open>Create\<close> returns success
  and leaves the file system as it is. So a \<^verbatim>\<open>CreateVolume\<close> request that the handler
  accepts, called any number of times, returns success each time, with the same volume,
  and the file system after all the calls is the one after the first call: an image that
  existed is untouched, an absent one has been created once, with the length of the
  request's size. The host of the first call is one where the image can be created when
  it is absent (\<^verbatim>\<open>truncate\<close> is found and exits with status 0); the later calls succeed
  whatever the host answers.
\<close>

theorem Create_idempotent:
  "(volumeId \<noteq> '''' \<and> 0 < sint sizeBytes \<and>
    isFileExists w (getImageFullPath s volumeId) = Return True \<longrightarrow>
      Create s h w volumeId sizeBytes = (Return None, w)) \<and>
   (acceptedRequest p request \<and> calculateVolumeSize (CapacityRange request) = Inr sz \<and>
    img = getImageFullPath (volumeController p) (Name request) \<and>
    (isFileExists w0 img = Return True \<or>
     w0 img = None \<and> LookPath h0 ''truncate'' = Found \<and>
     cmdError h0 ''truncate'' [''-s'', FormatInt (sint sz), img] = None) \<longrightarrow>
      (\<exists>response w1.
         createCalls p request (h0 # hs) w0
           = (replicate (Suc (length hs)) (Return (Inr response)), w1) \<and>
         CapacityBytes (Volume response) = sz \<and> VolumeId (Volume response) = Name request \<and>
         snd (snd (CreateVolume p h0 w0 request)) = w1 \<and>
         isFileExists w1 img = Return True \<and>
         w1 = (if w0 img = None then w0(img \<mapsto> Regular (nat (sint sz)) []) else w0)))"
proof (intro conjI impI)
  assume "volumeId \<noteq> '''' \<and> 0 < sint sizeBytes \<and>
    isFileExists w (getImageFullPath s volumeId) = Return True"
  moreover from this have "sizeBytes \<noteq> 0" by auto
  ultimately show "Create s h w volumeId sizeBytes = (Return None, w)"
    by (simp add: Create_existing)
next
  assume a: "acceptedRequest p request \<and> calculateVolumeSize (CapacityRange request) = Inr sz \<and>
    img = getImageFullPath (volumeController p) (Name request) \<and>
    (isFileExists w0 img = Return True \<or>
     w0 img = None \<and> LookPath h0 ''truncate'' = Found \<and>
     cmdError h0 ''truncate'' [''-s'', FormatInt (sint sz), img] = None)"
  then have accepted: "acceptedRequest p request"
    and sz: "calculateVolumeSize (CapacityRange request) = Inr sz"
    and img: "img = getImageFullPath (volumeController p) (Name request)"
    by simp_all
  from accepted have name: "Name request \<noteq> ''''" by (simp add: acceptedRequest_def)
  from calculateVolumeSize_bounds [OF sz] have pos: "0 < sint sz" and nonzero: "sz \<noteq> 0"
    by auto
  define w1 where "w1 = (if w0 img = None then w0(img \<mapsto> Regular (nat (sint sz)) []) else w0)"
  have created: "Create (volumeController p) h0 w0 (Name request) sz = (Return None, w1)"
  proof (cases "isFileExists w0 img = Return True")
    case True
    then have "w0 img \<noteq> None" by (auto simp: isFileExists_def split: option.splits)
    then have "w1 = w0" by (auto simp: w1_def)
    with True name nonzero img show ?thesis
      by (simp add: Create_existing)
  next
    case False
    with a have absent: "w0 img = None" and found: "LookPath h0 ''truncate'' = Found"
      and exit0: "cmdError h0 ''truncate'' [''-s'', FormatInt (sint sz), img] = None"
      by blast+
    from absent pos have "w1 = w0(img \<mapsto> Regular (if 0 \<le> sint sz then nat (sint sz) else 0) [])"
      by (simp add: w1_def)
    moreover from name nonzero absent found exit0
    have "Create (volumeController p) h0 w0 (Name request) sz =
      (Return None, w0(img \<mapsto> Regular (if 0 \<le> sint sz then nat (sint sz) else 0) []))"
      unfolding img by (rule Create_absent_runs)
    ultimately show ?thesis by simp
  qed
  from CreateVolume_accepted [OF accepted sz created] obtain response where
    first: "CreateVolume p h0 w0 request =
      ([(DebugLevel, ''CreateVolume called''), (InfoLevel, ''Volume was created'')],
       Return (Inr response), w1)"
    and capacity: "CapacityBytes (Volume response) = sz"
    and volumeId: "VolumeId (Volume response) = Name request"
    by blast
  from createCalls_repeat [OF first, of hs] first
  have calls: "createCalls p request (h0 # hs) w0
      = (replicate (Suc (length hs)) (Return (Inr response)), w1)"
    by simp
  from Create_success_exists [OF created] img
  have present: "isFileExists w1 img = Return True" by simp
  from calls capacity volumeId first present
  show "\<exists>response w1.
         createCalls p request (h0 # hs) w0
           = (replicate (Suc (length hs)) (Return (Inr response)), w1) \<and>
         CapacityBytes (Volume response) = sz \<and> VolumeId (Volume response) = Name request \<and>
         snd (snd (CreateVolume p h0 w0 request)) = w1 \<and>
         isFileExists w1 img = Return True \<and>
         w1 = (if w0 img = None then w0(img \<mapsto> Regular (nat (sint sz)) []) else w0)"
    by (auto simp: w1_def)
qed

lemma acceptedRequest_vol_a: "acceptedRequest examplePlugin (createVolA node)"
  by (simp add: acceptedRequest_def createVolA_def mountCapability_def mountSingleWriter_def
      examplePlugin_def calculateVolumeSize_def)

theorem Create_idempotent_witness:
  "Create exampleController hostWithoutTools
      [''/data/vol-a.img'' \<mapsto> Regular 1073741824 []] ''vol-a'' 5368709120
     = (Return None, [''/data/vol-a.img'' \<mapsto> Regular 1073741824 []]) \<and>
   (\<exists>response.
      createCalls examplePlugin (createVolA ''n1'')
          [hostWithFree 262144, hostWithoutTools, hostWithFree 0] Map.empty
        = ([Return (Inr response), Return (Inr response), Return (Inr response)],
           [''/data/vol-a.img'' \<mapsto> Regular 1073741824 []]) \<and>
      CapacityBytes (Volume response) = 1073741824 \<and> VolumeId (Volume response) = ''vol-a'' \<and>
      snd (snd (CreateVolume examplePlugin (hostWithFree 262144) Map.empty (createVolA ''n1'')))
        = [''/data/vol-a.img'' \<mapsto> Regular 1073741824 []])"
proof -
  let ?w1 = "[''/data/vol-a.img'' \<mapsto> Regular 1073741824 []]"
  note idempotent = Create_idempotent
    [where volumeId = "''vol-a''" and sizeBytes = 5368709120 and w = ?w1
       and s = exampleController and h = hostWithoutTools
       and p = examplePlugin and ?h0.0 = "hostWithFree 262144" and ?w0.0 = Map.empty
       and request = "createVolA ''n1''" and sz = 1073741824
       and img = "''/data/vol-a.img''"
       and hs = "[hostWithoutTools, hostWithFree 0]"]
  have existing: "''vol-a'' \<noteq> '''' \<and> 0 < sint (5368709120 :: int64) \<and>
      isFileExists ?w1 (getImageFullPath exampleController ''vol-a'') = Return True"
    by (simp add: examplePath isFileExists_def)
  from idempotent existing
  have again: "Create exampleController hostWithoutTools ?w1 ''vol-a'' 5368709120
      = (Return None, ?w1)"
    by blast
  have accepted: "acceptedRequest examplePlugin (createVolA ''n1'')"
    by (rule acceptedRequest_vol_a)
  have sz: "calculateVolumeSize (CapacityRange (createVolA ''n1'')) = Inr 1073741824"
    by (simp add: createVolA_def calculateVolumeSize_def defaultVolumeSize_def Gb_def)
  have img: "''/data/vol-a.img''
      = getImageFullPath (volumeController examplePlugin) (Name (createVolA ''n1''))"
    by (simp add: examplePlugin_def createVolA_def examplePath)
  have first: "Map.empty ''/data/vol-a.img'' = (None :: node option) \<and>
      LookPath (hostWithFree 262144) ''truncate'' = Found \<and>
      cmdError (hostWithFree 262144) ''truncate''
        [''-s'', FormatInt (sint (1073741824 :: int64)), ''/data/vol-a.img''] = None"
    by (simp add: hostWithFree_def)
  from idempotent accepted sz img first
  obtain response w1 where
    calls: "createCalls examplePlugin (createVolA ''n1'')
        (hostWithFree 262144 # [hostWithoutTools, hostWithFree 0]) Map.empty
      = (replicate (Suc (length [hostWithoutTools, hostWithFree 0])) (Return (Inr response)), w1)"
    and response: "CapacityBytes (Volume response) = 1073741824"
      "VolumeId (Volume response) = Name (createVolA ''n1'')"
    and handler:
      "snd (snd (CreateVolume examplePlugin (hostWithFree 262144) Map.empty (createVolA ''n1'')))
        = w1"
    and w1: "w1 = (if Map.empty ''/data/vol-a.img'' = (None :: node option)
        then Map.empty(''/data/vol-a.img'' \<mapsto> Regular (nat (sint (1073741824 :: int64))) [])
        else Map.empty)"
    by blast
  from w1 have "w1 = ?w1" by simp
  moreover have "Name (createVolA ''n1'') = ''vol-a''" by (simp add: createVolA_def)
  moreover have "replicate (Suc (length [hostWithoutTools, hostWithFree 0])) (Return (Inr response))
      = [Return (Inr response), Return (Inr response), Return (Inr response)]"
    by simp
  ultimately show ?thesis
    using again calls response handler by (intro conjI exI [of _ response]) simp_all
qed

text \<open>Any change \<^verbatim>\<open>CreateVolume\<close> makes to the file system is made by its one call of
  \<^verbatim>\<open>Create\<close>, with the size \<^verbatim>\<open>calculateVolumeSize\<close> returned.\<close>

lemma CreateVolume_world:
  "snd (snd (CreateVolume p h w request)) = w \<or>
   (\<exists>sz. calculateVolumeSize (CapacityRange request) = Inr sz \<and>
      snd (snd (CreateVolume p h w request))
        = snd (Create (volumeController p) h w (Name request) sz))"
  by (auto simp: CreateVolume_def Let_def
      split: go.splits option.splits list.splits sum.splits prod.splits)

text \<open>
  \<^bold>\<open>C6.\<close> The size \<^verbatim>\<open>Create\<close> rejects is 0: for every id it returns an error and leaves the
  file system as it is. A negative size is not checked. With no image present, \<^verbatim>\<open>Create\<close>
  passes a negative size to \<^verbatim>\<open>truncate -s\<close>: when the id is not empty, \<^verbatim>\<open>truncate\<close> is found
  and exits with status 0, \<^verbatim>\<open>Create\<close> returns success and an image of length 0 is present
  afterwards (the leading minus sign means "reduce by"); in every other case it returns an
  error and creates no file. \<^verbatim>\<open>CreateVolume\<close> never passes such a size: whenever it changes
  the file system, the change is that of \<^verbatim>\<open>Create\<close> at the size \<^verbatim>\<open>calculateVolumeSize\<close>
  returned, which is at least 1 GiB.
\<close>

theorem Create_size_guard:
  "(\<exists>e. Create s h w volumeId 0 = (Return (Some e), w)) \<and>
   (sint sizeBytes < 0 \<and> w (getImageFullPath s volumeId) = None \<longrightarrow>
      (if volumeId \<noteq> '''' \<and> LookPath h ''truncate'' = Found \<and>
          cmdError h ''truncate''
            [''-s'', FormatInt (sint sizeBytes), getImageFullPath s volumeId] = None
       then Create s h w volumeId sizeBytes
              = (Return None, w(getImageFullPath s volumeId \<mapsto> Regular 0 []))
       else \<exists>e. Create s h w volumeId sizeBytes = (Return (Some e), w))) \<and>
   (snd (snd (CreateVolume p h w request)) \<noteq> w \<longrightarrow>
      (\<exists>sz. calculateVolumeSize (CapacityRange request) = Inr sz \<and> 1073741824 \<le> sint sz \<and>
         snd (snd (CreateVolume p h w request))
           = snd (Create (volumeController p) h w (Name request) sz)))"
proof (intro conjI impI)
  show "\<exists>e. Create s h w volumeId 0 = (Return (Some e), w)"
    by (simp add: Create_def)
next
  assume a: "sint sizeBytes < 0 \<and> w (getImageFullPath s volumeId) = None"
  then have nonzero: "sizeBytes \<noteq> 0" and negative: "\<not> 0 \<le> sint sizeBytes"
    and absent: "w (getImageFullPath s volumeId) = None"
    by auto
  show "if volumeId \<noteq> '''' \<and> LookPath h ''truncate'' = Found \<and>
          cmdError h ''truncate''
            [''-s'', FormatInt (sint sizeBytes), getImageFullPath s volumeId] = None
       then Create s h w volumeId sizeBytes
              = (Return None, w(getImageFullPath s volumeId \<mapsto> Regular 0 []))
       else \<exists>e. Create s h w volumeId sizeBytes = (Return (Some e), w)"
  proof (cases "volumeId = ''''")
    case True
    then show ?thesis by (simp add: Create_def)
  next
    case named: False
    show ?thesis
    proof (cases "LookPath h ''truncate'' = Found \<and>
          cmdError h ''truncate''
            [''-s'', FormatInt (sint sizeBytes), getImageFullPath s volumeId] = None")
      case True
      with named nonzero negative absent
        Create_absent_runs [of volumeId sizeBytes w s h]
      show ?thesis by simp
    next
      case False
      with named nonzero absent Create_absent_fails [of volumeId sizeBytes w s h]
      show ?thesis by auto
    qed
  qed
next
  assume "snd (snd (CreateVolume p h w request)) \<noteq> w"
  with CreateVolume_world [of p h w request] obtain sz where
    sz: "calculateVolumeSize (CapacityRange request) = Inr sz"
    and world: "snd (snd (CreateVolume p h w request))
        = snd (Create (volumeController p) h w (Name request) sz)"
    by blast
  from calculateVolumeSize_bounds [OF sz] have "1073741824 \<le> sint sz" by simp
  with sz world
  show "\<exists>sz. calculateVolumeSize (CapacityRange request) = Inr sz \<and> 1073741824 \<le> sint sz \<and>
         snd (snd (CreateVolume p h w request))
           = snd (Create (volumeController p) h w (Name request) sz)"
    by blast
qed

lemma CreateVolume_vol_a:
  "CreateVolume examplePlugin (hostWithFree 262144) Map.empty (createVolA node) =
     ([(DebugLevel, ''CreateVolume called''), (InfoLevel, ''Volume was created'')],
      Return (Inr \<lparr>Volume = \<lparr>CapacityBytes = 1073741824, VolumeId = ''vol-a'',
        AccessibleTopology = [\<lparr>Segments = [''hostname'' \<mapsto> node]\<rparr>]\<rparr>\<rparr>),
      [''/data/vol-a.img'' \<mapsto> Regular 1073741824 []])"
  by (simp add: CreateVolume_def createVolA_def mountCapability_def examplePlugin_def
      calculateVolumeSize_def defaultVolumeSize_def Gb_def Create_def examplePath
      isFileExists_def truncate_def checkExecutable_def runTruncate_def truncateFile_def
      hostWithFree_def Let_def)

theorem Create_size_guard_witness:
  "(\<exists>e. Create exampleController (hostWithFree 262144) Map.empty ''vol-a'' 0
      = (Return (Some e), Map.empty)) \<and>
   Create exampleController (hostWithFree 262144) Map.empty ''vol-a'' (- 1073741824)
      = (Return None, [''/data/vol-a.img'' \<mapsto> Regular 0 []]) \<and>
   (\<exists>e. Create exampleController hostWithoutTools Map.empty ''vol-a'' (- 1073741824)
      = (Return (Some e), Map.empty)) \<and>
   (\<exists>sz. calculateVolumeSize (CapacityRange (createVolA ''n1'')) = Inr sz \<and>
      1073741824 \<le> sint sz \<and>
      [''/data/vol-a.img'' \<mapsto> Regular 1073741824 []]
        = snd (Create (volumeController examplePlugin) (hostWithFree 262144) Map.empty
            (Name (createVolA ''n1'')) sz))"
proof -
  note tools = Create_size_guard
    [where s = exampleController and h = "hostWithFree 262144" and w = Map.empty
       and volumeId = "''vol-a''" and sizeBytes = "- 1073741824"
       and p = examplePlugin and request = "createVolA ''n1''"]
  note bare = Create_size_guard
    [where s = exampleController and h = hostWithoutTools and w = Map.empty
       and volumeId = "''vol-a''" and sizeBytes = "- 1073741824"
       and p = examplePlugin and request = "createVolA ''n1''"]
  have negative: "sint (- 1073741824 :: int64) < 0 \<and>
      Map.empty (getImageFullPath exampleController ''vol-a'') = (None :: node option)"
    by simp
  have found: "''vol-a'' \<noteq> '''' \<and> LookPath (hostWithFree 262144) ''truncate'' = Found \<and>
      cmdError (hostWithFree 262144) ''truncate''
        [''-s'', FormatInt (sint (- 1073741824 :: int64)),
         getImageFullPath exampleController ''vol-a''] = None"
    by (simp add: hostWithFree_def)
  have missing: "\<not> (''vol-a'' \<noteq> '''' \<and> LookPath hostWithoutTools ''truncate'' = Found \<and>
      cmdError hostWithoutTools ''truncate''
        [''-s'', FormatInt (sint (- 1073741824 :: int64)),
         getImageFullPath exampleController ''vol-a''] = None)"
    by (simp add: hostWithoutTools_def hostWithFree_def)
  have world: "snd (snd (CreateVolume examplePlugin (hostWithFree 262144) Map.empty
      (createVolA ''n1''))) = [''/data/vol-a.img'' \<mapsto> Regular 1073741824 []]"
    by (simp add: CreateVolume_vol_a)
  then have changed: "snd (snd (CreateVolume examplePlugin (hostWithFree 262144) Map.empty
      (createVolA ''n1''))) \<noteq> Map.empty"
    by simp
  from tools have zero: "\<exists>e. Create exampleController (hostWithFree 262144) Map.empty ''vol-a'' 0
      = (Return (Some e), Map.empty)"
    by blast
  from tools negative found
  have created: "Create exampleController (hostWithFree 262144) Map.empty ''vol-a'' (- 1073741824)
      = (Return None, Map.empty(getImageFullPath exampleController ''vol-a'' \<mapsto> Regular 0 []))"
    by (simp only: if_True simp_thms)
  from bare negative missing
  have failed: "\<exists>e. Create exampleController hostWithoutTools Map.empty ''vol-a'' (- 1073741824)
      = (Return (Some e), Map.empty)"
    by (simp only: if_False simp_thms)
  from tools changed
  have "\<exists>sz. calculateVolumeSize (CapacityRange (createVolA ''n1'')) = Inr sz \<and>
      1073741824 \<le> sint sz \<and>
      snd (snd (CreateVolume examplePlugin (hostWithFree 262144) Map.empty (createVolA ''n1'')))
        = snd (Create (volumeController examplePlugin) (hostWithFree 262144) Map.empty
            (Name (createVolA ''n1'')) sz)"
    by blast
  with world zero created failed show ?thesis
    by (simp add: examplePath)
qed

theorem Create_size_guard_counterexample:
  "sint (- 1 :: int64) < 0 \<and>
   Map.empty (getImageFullPath exampleController ''vol-a'') = (None :: node option) \<and>
   Create exampleController (hostWithFree 262144) Map.empty ''vol-a'' (- 1)
     = (Return None, [''/data/vol-a.img'' \<mapsto> Regular 0 []])"
  by (simp add: Create_def examplePath isFileExists_def truncate_def checkExecutable_def
      runTruncate_def truncateFile_def hostWithFree_def Let_def)

lemma SprintfNoOperands_plain:
  "CHR ''%'' \<notin> set volumeId \<Longrightarrow> CHR ''%'' \<notin> set key \<Longrightarrow>
   SprintfNoOperands h (''CreateVolume ('' @ volumeId @ '') topology key ('' @ key @ '') not found'')
     = ''CreateVolume ('' @ volumeId @ '') topology key ('' @ key @ '') not found''"
  by (simp add: SprintfNoOperands_def)

text \<open>\<^verbatim>\<open>CreateVolume\<close> does not read the node's id.\<close>

lemma CreateVolume_ignores_nodeId:
  "CreateVolume (p\<lparr>nodeId := node\<rparr>) h w request = CreateVolume p h w request"
proof -
  have key: "nodeNameTopologyKey (p\<lparr>nodeId := node\<rparr>) = nodeNameTopologyKey p"
    by simp
  have controller: "volumeController (p\<lparr>nodeId := node\<rparr>) = volumeController p"
    by simp
  show ?thesis
    unfolding CreateVolume_def key controller ..
qed

text \<open>
  \<^bold>\<open>C1.\<close> The topology check of \<^verbatim>\<open>CreateVolume\<close>, for a request with a name, one or more
  capabilities that are all mount access for a single writer, and a non-empty preferred
  topology. When the first preferred segment has no entry for the configured topology key,
  \<^verbatim>\<open>CreateVolume\<close> returns \<open>InvalidArgument\<close> and changes nothing; the message names the
  topology key (the text is passed through \<^verbatim>\<open>fmt.Sprintf\<close> once more, so it is printed as
  it is when the name and the key hold no \<^verbatim>\<open>%\<close>). When the segment maps the key to a value,
  the request passes the check whatever the value is: the value is not compared with the
  node's id, which \<^verbatim>\<open>CreateVolume\<close> does not read; the result is never
  \<open>InvalidArgument\<close>, and a volume that is returned advertises the value as its
  accessible topology.
\<close>

theorem CreateVolume_topology_key:
  assumes "Name request \<noteq> ''''" and "VolumeCapabilities request \<noteq> []"
    and "list_all mountSingleWriter (VolumeCapabilities request)"
    and "AccessibilityRequirements request = Some requirements"
    and "Preferred requirements = topology # others"
  shows "(Segments topology (nodeNameTopologyKey p) = None \<longrightarrow>
           CreateVolume p h w request =
             ([(DebugLevel, ''CreateVolume called'')],
              Return (Inl (Status InvalidArgument (SprintfNoOperands h
                (''CreateVolume ('' @ Name request @ '') topology key (''
                   @ nodeNameTopologyKey p @ '') not found'')))), w) \<and>
           (CHR ''%'' \<notin> set (Name request) \<and> CHR ''%'' \<notin> set (nodeNameTopologyKey p) \<longrightarrow>
              SprintfNoOperands h (''CreateVolume ('' @ Name request @ '') topology key (''
                   @ nodeNameTopologyKey p @ '') not found'')
                = ''CreateVolume ('' @ Name request @ '') topology key (''
                   @ nodeNameTopologyKey p @ '') not found'')) \<and>
         (Segments topology (nodeNameTopologyKey p) = Some nodeName \<longrightarrow>
           (\<forall>msg. fst (snd (CreateVolume p h w request))
                    \<noteq> Return (Inl (Status InvalidArgument msg))) \<and>
           (\<forall>response. fst (snd (CreateVolume p h w request)) = Return (Inr response) \<longrightarrow>
              AccessibleTopology (Volume response)
                = [\<lparr>Segments = [nodeNameTopologyKey p \<mapsto> nodeName]\<rparr>]) \<and>
           CreateVolume (p\<lparr>nodeId := otherNode\<rparr>) h w request = CreateVolume p h w request)"
proof (intro conjI impI allI)
  assume "Segments topology (nodeNameTopologyKey p) = None"
  with assms checkCapabilities_supported [OF assms(3), of "Name request"]
  show "CreateVolume p h w request =
      ([(DebugLevel, ''CreateVolume called'')],
       Return (Inl (Status InvalidArgument (SprintfNoOperands h
         (''CreateVolume ('' @ Name request @ '') topology key (''
            @ nodeNameTopologyKey p @ '') not found'')))), w)"
    by (simp add: CreateVolume_def Let_def)
next
  assume plain: "CHR ''%'' \<notin> set (Name request) \<and> CHR ''%'' \<notin> set (nodeNameTopologyKey p)"
  from plain have "CHR ''%'' \<notin> set (Name request)" ..
  moreover from plain have "CHR ''%'' \<notin> set (nodeNameTopologyKey p)" ..
  ultimately show "SprintfNoOperands h (''CreateVolume ('' @ Name request @ '') topology key (''
      @ nodeNameTopologyKey p @ '') not found'')
    = ''CreateVolume ('' @ Name request @ '') topology key (''
      @ nodeNameTopologyKey p @ '') not found''"
    by (rule SprintfNoOperands_plain)
next
  fix msg
  assume "Segments topology (nodeNameTopologyKey p) = Some nodeName"
  with assms checkCapabilities_supported [OF assms(3), of "Name request"]
  show "fst (snd (CreateVolume p h w request)) \<noteq> Return (Inl (Status InvalidArgument msg))"
    by (auto simp: CreateVolume_def Let_def
        split: sum.splits prod.splits option.splits go.splits)
next
  fix response
  assume key: "Segments topology (nodeNameTopologyKey p) = Some nodeName"
    and result: "fst (snd (CreateVolume p h w request)) = Return (Inr response)"
  have "Create (volumeController p) h w (Name request) sz
      \<noteq> (Return (Some ErrorVolumeAlreadyExists), w')" for sz w'
    using Create_never_AlreadyExists [of "volumeController p" h w "Name request" sz] by auto
  with key result assms checkCapabilities_supported [OF assms(3), of "Name request"]
  show "AccessibleTopology (Volume response)
      = [\<lparr>Segments = [nodeNameTopologyKey p \<mapsto> nodeName]\<rparr>]"
    by (auto simp: CreateVolume_def Let_def
        split: sum.splits prod.splits option.splits go.splits if_splits)
next
  show "CreateVolume (p\<lparr>nodeId := otherNode\<rparr>) h w request = CreateVolume p h w request"
    by (rule CreateVolume_ignores_nodeId)
qed

theorem CreateVolume_topology_key_witness:
  "CreateVolume examplePlugin (hostWithFree 262144) Map.empty
      ((createVolA ''n1'')\<lparr>AccessibilityRequirements :=
         Some \<lparr>Requisite = [], Preferred = [\<lparr>Segments = [''zone'' \<mapsto> ''n1'']\<rparr>]\<rparr>\<rparr>)
     = ([(DebugLevel, ''CreateVolume called'')],
        Return (Inl (Status InvalidArgument
          ''CreateVolume (vol-a) topology key (hostname) not found'')), Map.empty) \<and>
   AccessibleTopology (Volume \<lparr>Volume = \<lparr>CapacityBytes = 1073741824, VolumeId = ''vol-a'',
        AccessibleTopology = [\<lparr>Segments = [''hostname'' \<mapsto> ''n2'']\<rparr>]\<rparr>\<rparr>)
     = [\<lparr>Segments = [nodeNameTopologyKey examplePlugin \<mapsto> ''n2'']\<rparr>] \<and>
   CreateVolume (examplePlugin\<lparr>nodeId := ''n2''\<rparr>) (hostWithFree 262144) Map.empty
      (createVolA ''n2'')
     = CreateVolume examplePlugin (hostWithFree 262144) Map.empty (createVolA ''n2'')"
proof -
  let ?h = "hostWithFree 262144"
  let ?noKey = "(createVolA ''n1'')\<lparr>AccessibilityRequirements :=
         Some \<lparr>Requisite = [], Preferred = [\<lparr>Segments = [''zone'' \<mapsto> ''n1'']\<rparr>]\<rparr>\<rparr>"
  have valid: "Name (createVolA node) \<noteq> ''''" "VolumeCapabilities (createVolA node) \<noteq> []"
    "list_all mountSingleWriter (VolumeCapabilities (createVolA node))" for node
    by (simp_all add: createVolA_def mountCapability_def mountSingleWriter_def)
  have missing: "CreateVolume examplePlugin ?h Map.empty ?noKey
     = ([(DebugLevel, ''CreateVolume called'')],
        Return (Inl (Status InvalidArgument
          ''CreateVolume (vol-a) topology key (hostname) not found'')), Map.empty)"
    using CreateVolume_topology_key
      [where request = ?noKey and p = examplePlugin and h = ?h and w = Map.empty
         and requirements = "\<lparr>Requisite = [], Preferred = [\<lparr>Segments = [''zone'' \<mapsto> ''n1'']\<rparr>]\<rparr>"
         and topology = "\<lparr>Segments = [''zone'' \<mapsto> ''n1'']\<rparr>" and others = "[]"]
      valid [of "''n1''"]
    by (simp add: createVolA_def examplePlugin_def)
  have other: "fst (snd (CreateVolume examplePlugin ?h Map.empty (createVolA ''n2'')))
      = Return (Inr \<lparr>Volume = \<lparr>CapacityBytes = 1073741824, VolumeId = ''vol-a'',
        AccessibleTopology = [\<lparr>Segments = [''hostname'' \<mapsto> ''n2'']\<rparr>]\<rparr>\<rparr>)"
    by (simp add: CreateVolume_vol_a)
  have present: "AccessibleTopology (Volume \<lparr>Volume = \<lparr>CapacityBytes = 1073741824,
        VolumeId = ''vol-a'',
        AccessibleTopology = [\<lparr>Segments = [''hostname'' \<mapsto> ''n2'']\<rparr>]\<rparr>\<rparr>)
      = [\<lparr>Segments = [nodeNameTopologyKey examplePlugin \<mapsto> ''n2'']\<rparr>] \<and>
    CreateVolume (examplePlugin\<lparr>nodeId := ''n2''\<rparr>) ?h Map.empty (createVolA ''n2'')
      = CreateVolume examplePlugin ?h Map.empty (createVolA ''n2'')"
    using CreateVolume_topology_key
      [where request = "createVolA ''n2''" and p = examplePlugin and h = ?h and w = Map.empty
         and requirements = "\<lparr>Requisite = [], Preferred = [\<lparr>Segments = [''hostname'' \<mapsto> ''n2'']\<rparr>]\<rparr>"
         and topology = "\<lparr>Segments = [''hostname'' \<mapsto> ''n2'']\<rparr>" and others = "[]"
         and nodeName = "''n2''" and otherNode = "''n2''"]
      valid [of "''n2''"] other
    by (simp add: createVolA_def examplePlugin_def)
  from missing present show ?thesis by simp
qed

theorem CreateVolume_topology_key_counterexample:
  "nodeId examplePlugin = ''n1'' \<and>
   Segments (hd (Preferred (the (AccessibilityRequirements (createVolA ''n2'')))))
     (nodeNameTopologyKey examplePlugin) = Some ''n2'' \<and>
   CreateVolume examplePlugin (hostWithFree 262144) Map.empty (createVolA ''n2'') =
     ([(DebugLevel, ''CreateVolume called''), (InfoLevel, ''Volume was created'')],
      Return (Inr \<lparr>Volume = \<lparr>CapacityBytes = 1073741824, VolumeId = ''vol-a'',
        AccessibleTopology = [\<lparr>Segments = [''hostname'' \<mapsto> ''n2'']\<rparr>]\<rparr>\<rparr>),
      [''/data/vol-a.img'' \<mapsto> Regular 1073741824 []])"
  by (simp add: CreateVolume_vol_a) (simp add: examplePlugin_def createVolA_def)

section \<open>The mount-table query\<close>

lemma scanFileSystems_bad_propagation:
  "\<exists>fs \<in> set fileSystems. Propagation fs \<noteq> ''shared'' \<Longrightarrow>
   \<exists>e. scanFileSystems target isMounted fileSystems = (True, Some e)"
  by (induction fileSystems arbitrary: isMounted) auto

lemma scanFileSystems_shared:
  "\<forall>fs \<in> set fileSystems. Propagation fs = ''shared'' \<Longrightarrow>
   scanFileSystems target isMounted fileSystems
     = (isMounted \<or> (\<exists>fs \<in> set fileSystems. Target fs = target), None)"
  by (induction fileSystems arbitrary: isMounted) auto

lemma scanFileSystems_match:
  assumes "scanFileSystems target False fileSystems = (True, None)"
  shows "(\<forall>fs \<in> set fileSystems. Propagation fs = ''shared'') \<and>
         (\<exists>fs \<in> set fileSystems. Target fs = target)"
proof (cases "\<forall>fs \<in> set fileSystems. Propagation fs = ''shared''")
  case True
  with assms scanFileSystems_shared [of fileSystems target False] show ?thesis by simp
next
  case False
  then have "\<exists>fs \<in> set fileSystems. Propagation fs \<noteq> ''shared''" by simp
  from scanFileSystems_bad_propagation [OF this, of target False] assms
  show ?thesis by simp
qed

text \<open>
  \<^bold>\<open>C8.\<close> \<^verbatim>\<open>IsMounted\<close>, for a target that is not empty and with \<^verbatim>\<open>findmnt\<close> found, so that
  the mount table is queried. (1) When the output of the query is blank, the result is
  \<open>false\<close> without error, whether \<^verbatim>\<open>findmnt\<close> exited with status 0 or not. (2) When the
  query returns entries and one of them has a propagation other than \<^verbatim>\<open>shared\<close>, the
  result carries an error. (3) The result \<open>true\<close> without error is returned only when
  the query has returned entries, one of them with the queried path as its target (and all
  of them shared); and it is returned then.
\<close>

theorem IsMounted_query:
  assumes "target \<noteq> ''''" and "LookPath h ''findmnt'' = Found"
    and "args = [''-o'', ''TARGET,PROPAGATION,FSTYPE,OPTIONS'', ''-J'', ''-M'', target]"
  shows "(TrimSpace (cmdOutput h ''findmnt'' args) = '''' \<longrightarrow>
           IsMounted h target = Return (False, None)) \<and>
         (cmdError h ''findmnt'' args = None \<and> TrimSpace (cmdOutput h ''findmnt'' args) \<noteq> '''' \<and>
          Unmarshal h (cmdOutput h ''findmnt'' args) = Response fileSystems \<and>
          (\<exists>fs \<in> set fileSystems. Propagation fs \<noteq> ''shared'') \<longrightarrow>
           (\<exists>e. IsMounted h target = Return (True, Some e))) \<and>
         (IsMounted h target = Return (True, None) \<longleftrightarrow>
           cmdError h ''findmnt'' args = None \<and> TrimSpace (cmdOutput h ''findmnt'' args) \<noteq> '''' \<and>
           (\<exists>entries. Unmarshal h (cmdOutput h ''findmnt'' args) = Response entries \<and>
              (\<forall>fs \<in> set entries. Propagation fs = ''shared'') \<and>
              (\<exists>fs \<in> set entries. Target fs = target)))"
proof (intro conjI impI)
  assume "TrimSpace (cmdOutput h ''findmnt'' args) = ''''"
  with assms show "IsMounted h target = Return (False, None)"
    by (simp add: IsMounted_def checkExecutable_def Let_def split: option.splits)
next
  assume bad: "cmdError h ''findmnt'' args = None \<and>
      TrimSpace (cmdOutput h ''findmnt'' args) \<noteq> '''' \<and>
      Unmarshal h (cmdOutput h ''findmnt'' args) = Response fileSystems \<and>
      (\<exists>fs \<in> set fileSystems. Propagation fs \<noteq> ''shared'')"
  then have "\<exists>fs \<in> set fileSystems. Propagation fs \<noteq> ''shared''" by simp
  from scanFileSystems_bad_propagation [OF this, of target False]
  obtain e where "scanFileSystems target False fileSystems = (True, Some e)" ..
  with bad assms show "\<exists>e. IsMounted h target = Return (True, Some e)"
    by (simp add: IsMounted_def checkExecutable_def Let_def)
next
  show "IsMounted h target = Return (True, None) \<longleftrightarrow>
      cmdError h ''findmnt'' args = None \<and> TrimSpace (cmdOutput h ''findmnt'' args) \<noteq> '''' \<and>
      (\<exists>entries. Unmarshal h (cmdOutput h ''findmnt'' args) = Response entries \<and>
         (\<forall>fs \<in> set entries. Propagation fs = ''shared'') \<and>
         (\<exists>fs \<in> set entries. Target fs = target))"
  proof
    assume "IsMounted h target = Return (True, None)"
    with assms have "cmdError h ''findmnt'' args = None \<and>
        TrimSpace (cmdOutput h ''findmnt'' args) \<noteq> '''' \<and>
        (\<exists>entries. Unmarshal h (cmdOutput h ''findmnt'' args) = Response entries \<and>
           scanFileSystems target False entries = (True, None))"
      by (auto simp: IsMounted_def checkExecutable_def Let_def
          split: option.splits if_splits unmarshal_result.splits)
    then obtain entries where "cmdError h ''findmnt'' args = None"
      and "TrimSpace (cmdOutput h ''findmnt'' args) \<noteq> ''''"
      and "Unmarshal h (cmdOutput h ''findmnt'' args) = Response entries"
      and scanned: "scanFileSystems target False entries = (True, None)"
      by blast
    with scanFileSystems_match [OF scanned]
    show "cmdError h ''findmnt'' args = None \<and>
        TrimSpace (cmdOutput h ''findmnt'' args) \<noteq> '''' \<and>
        (\<exists>entries. Unmarshal h (cmdOutput h ''findmnt'' args) = Response entries \<and>
           (\<forall>fs \<in> set entries. Propagation fs = ''shared'') \<and>
           (\<exists>fs \<in> set entries. Target fs = target))"
      by blast
  next
    assume found: "cmdError h ''findmnt'' args = None \<and>
        TrimSpace (cmdOutput h ''findmnt'' args) \<noteq> '''' \<and>
        (\<exists>entries. Unmarshal h (cmdOutput h ''findmnt'' args) = Response entries \<and>
           (\<forall>fs \<in> set entries. Propagation fs = ''shared'') \<and>
           (\<exists>fs \<in> set entries. Target fs = target))"
    then obtain entries where entries: "Unmarshal h (cmdOutput h ''findmnt'' args) = Response entries"
      and shared: "\<forall>fs \<in> set entries. Propagation fs = ''shared''"
      and match: "\<exists>fs \<in> set entries. Target fs = target"
      by blast
    from scanFileSystems_shared [OF shared, of target False] match
    have "scanFileSystems target False entries = (True, None)" by simp
    with found entries assms show "IsMounted h target = Return (True, None)"
      by (simp add: IsMounted_def checkExecutable_def Let_def)
  qed
qed

lemma TrimSpace_newline: "TrimSpace [CHR 0x0A] = ''''"
  by (simp add: TrimSpace_def trimLead.simps leadLen_def spaceRunes_def)

lemma TrimSpace_private:
  "TrimSpace (''{\"filesystems\":[{\"target\":\"/stage/vol-a\",\"propagation\":\"private\",\"fstype\":\"ext4\",\"options\":\"rw,relatime\"}]}'' @ [CHR 0x0A])
     = ''{\"filesystems\":[{\"target\":\"/stage/vol-a\",\"propagation\":\"private\",\"fstype\":\"ext4\",\"options\":\"rw,relatime\"}]}''"
  by (simp add: TrimSpace_def trimLead.simps leadLen_def spaceRunes_def)

lemma TrimSpace_shared:
  "TrimSpace (''{\"filesystems\":[{\"target\":\"/stage/vol-a\",\"propagation\":\"shared\",\"fstype\":\"ext4\",\"options\":\"rw,relatime\"}]}'' @ [CHR 0x0A])
     = ''{\"filesystems\":[{\"target\":\"/stage/vol-a\",\"propagation\":\"shared\",\"fstype\":\"ext4\",\"options\":\"rw,relatime\"}]}''"
  by (simp add: TrimSpace_def trimLead.simps leadLen_def spaceRunes_def)

theorem IsMounted_query_witness:
  "IsMounted (hostWithMounts (Some ''exit status 1'') [CHR 0x0A] []) ''/not/mounted''
     = Return (False, None) \<and>
   (\<exists>e. IsMounted (hostWithMounts None
      (''{\"filesystems\":[{\"target\":\"/stage/vol-a\",\"propagation\":\"private\",\"fstype\":\"ext4\",\"options\":\"rw,relatime\"}]}'' @ [CHR 0x0A])
      [\<lparr>Target = ''/stage/vol-a'', Propagation = ''private'', FsType = ''ext4'',
        Options = ''rw,relatime''\<rparr>]) ''/stage/vol-a'' = Return (True, Some e)) \<and>
   IsMounted (hostWithMounts None
      (''{\"filesystems\":[{\"target\":\"/stage/vol-a\",\"propagation\":\"shared\",\"fstype\":\"ext4\",\"options\":\"rw,relatime\"}]}'' @ [CHR 0x0A])
      [\<lparr>Target = ''/stage/vol-a'', Propagation = ''shared'', FsType = ''ext4'',
        Options = ''rw,relatime''\<rparr>]) ''/stage/vol-a'' = Return (True, None)"
proof -
  let ?outPrivate = "''{\"filesystems\":[{\"target\":\"/stage/vol-a\",\"propagation\":\"private\",\"fstype\":\"ext4\",\"options\":\"rw,relatime\"}]}'' @ [CHR 0x0A]"
  let ?outShared = "''{\"filesystems\":[{\"target\":\"/stage/vol-a\",\"propagation\":\"shared\",\"fstype\":\"ext4\",\"options\":\"rw,relatime\"}]}'' @ [CHR 0x0A]"
  let ?private = "\<lparr>Target = ''/stage/vol-a'', Propagation = ''private'', FsType = ''ext4'',
        Options = ''rw,relatime''\<rparr>"
  let ?shared = "\<lparr>Target = ''/stage/vol-a'', Propagation = ''shared'', FsType = ''ext4'',
        Options = ''rw,relatime''\<rparr>"
  have outPrivate: "TrimSpace ?outPrivate \<noteq> ''''"
    by (simp only: TrimSpace_private) simp
  have outShared: "TrimSpace ?outShared \<noteq> ''''"
    by (simp only: TrimSpace_shared) simp
  have blank: "IsMounted (hostWithMounts (Some ''exit status 1'') [CHR 0x0A] []) ''/not/mounted''
     = Return (False, None)"
    using IsMounted_query
      [where target = "''/not/mounted''"
         and h = "hostWithMounts (Some ''exit status 1'') [CHR 0x0A] []"]
    by (simp add: hostWithMounts_def TrimSpace_newline)
  have corrupted: "\<exists>e. IsMounted (hostWithMounts None ?outPrivate [?private]) ''/stage/vol-a''
     = Return (True, Some e)"
    using IsMounted_query
      [where target = "''/stage/vol-a''" and h = "hostWithMounts None ?outPrivate [?private]"
         and fileSystems = "[?private]"] outPrivate
    by (simp add: hostWithMounts_def del: append.simps)
  have mounted: "IsMounted (hostWithMounts None ?outShared [?shared]) ''/stage/vol-a''
     = Return (True, None)"
    using IsMounted_query
      [where target = "''/stage/vol-a''" and h = "hostWithMounts None ?outShared [?shared]"]
      outShared
    by (simp add: hostWithMounts_def del: append.simps)
  from blank corrupted mounted show ?thesis by simp
qed

end
